theory Spec2Isabelle
  imports Main "HOL-Library.Word"
begin

text \<open>
  The application exists in two variants, both a single React component \<open>App\<close>: the
  picker-based one keeps an explicit list of picked PDF files and persists it; the
  storage-access-framework one remembers a directory and lists it again. Each handler
  of a component is a function from the component's state (with the AsyncStorage it
  writes) to the new state and the list of effects it has on the outside world. An
  \<open>async\<close> handler is run to its end, every call into the platform answered by the
  \<open>platform\<close> record; a handler reads the state of the render it was created in, so
  every read is of the state given. The timer a scan starts is a transition of its own.

  An \<open>async\<close> function that is called without \<open>await\<close> runs until it first waits and
  then hands control back: what it does behind that point happens after its caller has
  gone on. Such a function gives its effects in two parts, those before it first waits
  and those after.
\<close>

section \<open>JavaScript strings\<close>

text \<open>
  A JavaScript string is a sequence of UTF-16 code units; \<open>length\<close>, \<open>substring\<close>,
  \<open>lastIndexOf\<close> and \<open>endsWith\<close> all count code units. String literals of the
  source are written \<open>lit ''...''\<close>.
\<close>

type_synonym jsstring = "16 word list"

definition lit :: "string \<Rightarrow> jsstring" where
  "lit s = map of_char s"

text \<open>\<open>s.substring(start, fin)\<close>: both indices are clamped to the length and swapped
  when \<open>start > fin\<close>.\<close>

definition substring :: "jsstring \<Rightarrow> nat \<Rightarrow> nat \<Rightarrow> jsstring" where
  "substring s start fin =
     (let n = length s; a = min start n; b = min fin n
      in take (max a b - min a b) (drop (min a b) s))"

text \<open>\<open>s.substring(start)\<close>.\<close>

definition substringFrom :: "jsstring \<Rightarrow> nat \<Rightarrow> jsstring" where
  "substringFrom s start = drop (min start (length s)) s"

text \<open>\<open>s.endsWith(suffix)\<close>.\<close>

definition endsWith :: "jsstring \<Rightarrow> jsstring \<Rightarrow> bool" where
  "endsWith s suffix \<longleftrightarrow>
     length suffix \<le> length s \<and> drop (length s - length suffix) s = suffix"

text \<open>\<open>s.lastIndexOf(pat)\<close>: the largest index at which \<open>pat\<close> occurs, \<open>-1\<close> when
  there is none. The search runs from the end of the string downwards.\<close>

fun lastIndexOf_from :: "jsstring \<Rightarrow> jsstring \<Rightarrow> nat \<Rightarrow> int" where
  "lastIndexOf_from s pat 0 = (if take (length pat) s = pat then 0 else - 1)"
| "lastIndexOf_from s pat (Suc k) =
     (if take (length pat) (drop (Suc k) s) = pat then int (Suc k)
      else lastIndexOf_from s pat k)"

definition lastIndexOf :: "jsstring \<Rightarrow> jsstring \<Rightarrow> int" where
  "lastIndexOf s pat = lastIndexOf_from s pat (length s)"

text \<open>Lower-casing of the ASCII letters \<open>A\<close> to \<open>Z\<close>, every other code unit kept. It is
  the \<open>toLowerCase\<close> of the concrete platforms below, and states what a case-insensitive
  \<open>.pdf\<close> is; the results about lookups hold for any \<open>toLowerCase\<close>.\<close>

definition asciiLower :: "jsstring \<Rightarrow> jsstring" where
  "asciiLower s = map (\<lambda>c. if 0x41 \<le> c \<and> c \<le> 0x5A then c + 0x20 else c) s"

section \<open>The two regular expressions of the picker-based variant\<close>

text \<open>
  \<open>/\.pdf$/i\<close> has no \<open>u\<close> flag: a pattern letter matches a code unit whose upper-case
  canonical form is that of the letter, and a code unit of 128 or more never
  canonicalises to an ASCII letter. So \<open>p\<close> matches exactly \<open>p\<close> and \<open>P\<close>, and so on;
  \<open>\.\<close> matches the full stop only, and \<open>$\<close> (no \<open>m\<close> flag) only the end of the input.
\<close>

definition pdfExtMatchesAt :: "jsstring \<Rightarrow> nat \<Rightarrow> bool" where
  "pdfExtMatchesAt s i \<longleftrightarrow>
     i + 4 = length s \<and> s ! i = 0x2E
     \<and> (s ! (i + 1) = 0x70 \<or> s ! (i + 1) = 0x50)
     \<and> (s ! (i + 2) = 0x64 \<or> s ! (i + 2) = 0x44)
     \<and> (s ! (i + 3) = 0x66 \<or> s ! (i + 3) = 0x46)"

text \<open>\<open>filename.replace(/\.pdf$/i, "")\<close>: the leftmost match, when there is one, is
  cut out of the string.\<close>

definition replacePdfExt :: "jsstring \<Rightarrow> jsstring" where
  "replacePdfExt s =
     (case find (pdfExtMatchesAt s) [0..<Suc (length s)] of
        None \<Rightarrow> s
      | Some i \<Rightarrow> take i s @ drop (i + 4) s)"

text \<open>The character class \<open>[a-zA-Z0-9]\<close>.\<close>

definition isAlnumUnit :: "16 word \<Rightarrow> bool" where
  "isAlnumUnit c \<longleftrightarrow>
     (0x61 \<le> c \<and> c \<le> 0x7A) \<or> (0x41 \<le> c \<and> c \<le> 0x5A) \<or> (0x30 \<le> c \<and> c \<le> 0x39)"

text \<open>\<open>/^[a-zA-Z0-9]+$/.test(s)\<close>.\<close>

definition testAlnum :: "jsstring \<Rightarrow> bool" where
  "testAlnum s \<longleftrightarrow> s \<noteq> [] \<and> list_all isAlnumUnit s"

definition extractBarcodeFromFilename :: "jsstring \<Rightarrow> jsstring option" where
  "extractBarcodeFromFilename filename =
     (let nameWithoutExt = replacePdfExt filename
      in if testAlnum nameWithoutExt then Some nameWithoutExt else None)"

section \<open>Data model\<close>

record ScanResult =
  data :: jsstring
  timestamp :: int

text \<open>\<open>interface PDFFile\<close>; the field \<open>size\<close> is \<open>fsize\<close> here.\<close>

record PDFFile =
  name :: jsstring
  uri :: jsstring
  fsize :: nat
  barcode :: jsstring

text \<open>An asset of the document picker. Its \<open>size\<close> may be undefined.\<close>

record asset =
  asset_name :: jsstring
  asset_uri :: jsstring
  asset_size :: "nat option"

text \<open>What \<open>DocumentPicker.getDocumentAsync\<close> resolves to, or that it rejects.\<close>

datatype picker_result = PickerRejected | PickerCanceled | PickerAssets "asset list"

text \<open>\<open>interface DirectoryPermission\<close> of the storage-access-framework variant.\<close>

record DirectoryPermission =
  granted :: bool
  directoryUri :: jsstring

datatype os = Android | Ios | Windows | Macos | Web

text \<open>
  The platform as one handler run sees it: every call into the host SDKs is answered by
  a field of this record. A call that rejects or throws is \<open>None\<close> (or \<open>False\<close> for a
  call whose result is not used).
\<close>

record platform =
  platformOS :: os
  toLowerCase :: "jsstring \<Rightarrow> jsstring"
  dateNow :: int
  requestCameraPermissionsAsync :: "bool option"
  getInfoAsync :: "jsstring \<Rightarrow> bool option"
  startActivityAsync :: "jsstring \<Rightarrow> bool"
  getDocumentAsync :: picker_result
  readDirectoryAsync :: "jsstring \<Rightarrow> jsstring list option"
  getItemResolves :: bool
  setItemResolves :: bool
  stringifyFiles :: "PDFFile list \<Rightarrow> jsstring"
  parseFiles :: "jsstring \<Rightarrow> PDFFile list option"
  stringifyScanResult :: "ScanResult \<Rightarrow> jsstring"

text \<open>The alerts the two variants show, with the values their messages are built from.\<close>

datatype alert =
    FilesAdded nat nat nat
  | NoFilesAdded nat nat
  | FailedToAddPDFFiles
  | CouldNotOpenPDF
  | OpenPDFUseShareButton
  | CouldNotOpenPDFFile
  | NoPDFsAvailable
  | FileNoLongerAvailable jsstring jsstring
  | NoPDFFoundForBarcode jsstring nat
  | FailedToOpenPDFFile
  | FailedToLoadPDFFiles

text \<open>What a handler does to the outside world, in the order it does it.
  \<open>StartActivity u\<close> is the call of the intent launcher with \<open>data: u\<close>.\<close>

datatype log_message = FileNoLongerAccessible jsstring | FoundPDFFiles nat

datatype effect =
    Alert alert
  | StartActivity jsstring
  | OpenDocumentPicker
  | ConsoleError
  | ConsoleLog log_message
  | SetTimeout nat

type_synonym async_storage = "jsstring \<rightharpoonup> jsstring"

text \<open>\<open>AsyncStorage.getItem(key)\<close>: the stored text or \<open>null\<close>; \<open>None\<close> when the promise
  rejects.\<close>

definition getItem :: "platform \<Rightarrow> jsstring \<Rightarrow> async_storage \<Rightarrow> jsstring option option" where
  "getItem p key st = (if getItemResolves p then Some (st key) else None)"

text \<open>\<open>AsyncStorage.setItem(key, value)\<close>; \<open>None\<close> when the promise rejects.\<close>

definition setItem :: "platform \<Rightarrow> jsstring \<Rightarrow> jsstring \<Rightarrow> async_storage \<Rightarrow> async_storage option" where
  "setItem p key v st = (if setItemResolves p then Some (st(key \<mapsto> v)) else None)"

section \<open>Picker-based variant\<close>

definition STORAGE_KEY :: jsstring where
  "STORAGE_KEY = lit ''@factory_scanner_pdfs''"

text \<open>The component's state hooks, and the AsyncStorage the component writes to.\<close>

record app =
  hasPermission :: "bool option"
  scanned :: bool
  pdfFiles :: "PDFFile list"
  isLoading :: bool
  lastScan :: "ScanResult option"
  isProcessing :: bool
  isManaging :: bool
  storage :: async_storage

text \<open>\<open>requestCameraPermissionsAsync\<close> answers whether the status is \<open>granted\<close>; when it
  rejects, nothing catches it and the state stays.\<close>

definition getCameraPermissions :: "platform \<Rightarrow> app \<Rightarrow> app" where
  "getCameraPermissions p s =
     (case requestCameraPermissionsAsync p of
        None \<Rightarrow> s
      | Some isGranted \<Rightarrow> s\<lparr>hasPermission := Some isGranted\<rparr>)"

text \<open>The loop of \<open>loadPDFFiles\<close> over the parsed files: a file is kept when
  \<open>getInfoAsync\<close> says it exists; when the call throws, the file is logged and dropped.\<close>

fun validFiles_loop :: "platform \<Rightarrow> PDFFile list \<Rightarrow> PDFFile list \<Rightarrow> effect list
    \<Rightarrow> PDFFile list \<times> effect list" where
  "validFiles_loop p [] validFiles es = (validFiles, es)"
| "validFiles_loop p (file # files) validFiles es =
     (case getInfoAsync p (uri file) of
        None \<Rightarrow>
          validFiles_loop p files validFiles (es @ [ConsoleLog (FileNoLongerAccessible (name file))])
      | Some ex \<Rightarrow>
          if ex then validFiles_loop p files (validFiles @ [file]) es
          else validFiles_loop p files validFiles es)"

definition loadPDFFiles :: "platform \<Rightarrow> app \<Rightarrow> app \<times> effect list" where
  "loadPDFFiles p s =
     (case getItem p STORAGE_KEY (storage s) of
        None \<Rightarrow> (s\<lparr>isLoading := False\<rparr>, [ConsoleError])
      | Some None \<Rightarrow> (s\<lparr>isLoading := False\<rparr>, [])
      | Some (Some savedFiles) \<Rightarrow>
          if savedFiles = [] then (s\<lparr>isLoading := False\<rparr>, [])
          else
            (case parseFiles p savedFiles of
               None \<Rightarrow> (s\<lparr>isLoading := False\<rparr>, [ConsoleError])
             | Some files \<Rightarrow>
                 (case validFiles_loop p files [] [] of
                    (validFiles, es) \<Rightarrow>
                      if length validFiles \<noteq> length files then
                        (case setItem p STORAGE_KEY (stringifyFiles p validFiles) (storage s) of
                           None \<Rightarrow>
                             (s\<lparr>pdfFiles := validFiles, isLoading := False\<rparr>,
                              es @ [ConsoleError])
                         | Some st \<Rightarrow>
                             (s\<lparr>pdfFiles := validFiles, storage := st, isLoading := False\<rparr>,
                              es))
                      else (s\<lparr>pdfFiles := validFiles, isLoading := False\<rparr>, es))))"

text \<open>\<open>asset.name || "unknown.pdf"\<close>: the empty name is falsy.\<close>

definition fileNameOf :: "asset \<Rightarrow> jsstring" where
  "fileNameOf a = (if asset_name a = [] then lit ''unknown.pdf'' else asset_name a)"

text \<open>\<open>asset.size || 0\<close>.\<close>

definition sizeOf :: "asset \<Rightarrow> nat" where
  "sizeOf a = (case asset_size a of None \<Rightarrow> 0 | Some n \<Rightarrow> n)"

text \<open>The loop of \<open>addPDFFiles\<close> over the picked assets. \<open>existingUris\<close> is built once,
  before the loop, from the list as it was.\<close>

fun addPDFFiles_loop :: "jsstring list \<Rightarrow> asset list \<Rightarrow> PDFFile list \<Rightarrow> nat \<Rightarrow> nat
    \<Rightarrow> PDFFile list \<times> nat \<times> nat" where
  "addPDFFiles_loop existingUris [] newFiles duplicateCount invalidCount =
     (newFiles, duplicateCount, invalidCount)"
| "addPDFFiles_loop existingUris (a # assets) newFiles duplicateCount invalidCount =
     (if asset_uri a \<in> set existingUris
      then addPDFFiles_loop existingUris assets newFiles (duplicateCount + 1) invalidCount
      else
        (case extractBarcodeFromFilename (fileNameOf a) of
           None \<Rightarrow> addPDFFiles_loop existingUris assets newFiles duplicateCount (invalidCount + 1)
         | Some b \<Rightarrow>
             if b \<noteq> [] then
               addPDFFiles_loop existingUris assets
                 (newFiles @ [\<lparr>name = fileNameOf a, uri = asset_uri a, fsize = sizeOf a,
                               barcode = b\<rparr>])
                 duplicateCount invalidCount
             else addPDFFiles_loop existingUris assets newFiles duplicateCount (invalidCount + 1)))"

definition addPDFFiles :: "platform \<Rightarrow> app \<Rightarrow> app \<times> effect list" where
  "addPDFFiles p s =
     (case getDocumentAsync p of
        PickerRejected \<Rightarrow> (s\<lparr>isManaging := False\<rparr>, [ConsoleError, Alert FailedToAddPDFFiles])
      | PickerCanceled \<Rightarrow> (s\<lparr>isManaging := False\<rparr>, [])
      | PickerAssets assets \<Rightarrow>
          if length assets > 0 then
            (case addPDFFiles_loop (map uri (pdfFiles s)) assets [] 0 0 of
               (newFiles, duplicateCount, invalidCount) \<Rightarrow>
                 if length newFiles > 0 then
                   (let updatedFiles = pdfFiles s @ newFiles
                    in case setItem p STORAGE_KEY (stringifyFiles p updatedFiles) (storage s) of
                         None \<Rightarrow>
                           (s\<lparr>pdfFiles := updatedFiles, isManaging := False\<rparr>,
                            [ConsoleError, Alert FailedToAddPDFFiles])
                       | Some st \<Rightarrow>
                           (s\<lparr>pdfFiles := updatedFiles, storage := st, isManaging := False\<rparr>,
                            [Alert (FilesAdded (length newFiles) duplicateCount invalidCount)]))
                 else
                   (s\<lparr>isManaging := False\<rparr>,
                    [Alert (NoFilesAdded duplicateCount invalidCount)]))
          else (s\<lparr>isManaging := False\<rparr>, []))"

definition removePDFFile :: "platform \<Rightarrow> jsstring \<Rightarrow> app \<Rightarrow> app \<times> effect list" where
  "removePDFFile p u s =
     (let updatedFiles = filter (\<lambda>file. uri file \<noteq> u) (pdfFiles s);
          s1 = (if length updatedFiles = 0 then s\<lparr>isManaging := \<not> isManaging s\<rparr> else s);
          s2 = s1\<lparr>pdfFiles := updatedFiles\<rparr>
      in case setItem p STORAGE_KEY (stringifyFiles p updatedFiles) (storage s) of
           None \<Rightarrow> (s2, [ConsoleError])
         | Some st \<Rightarrow> (s2\<lparr>storage := st\<rparr>, []))"

definition openPDFWithIntent :: "platform \<Rightarrow> jsstring \<Rightarrow> jsstring \<Rightarrow> effect list" where
  "openPDFWithIntent p u filename =
     (if platformOS p = Android then
        (if startActivityAsync p u then [StartActivity u]
         else [StartActivity u, ConsoleError, Alert CouldNotOpenPDF])
      else
        (case getDocumentAsync p of
           PickerRejected \<Rightarrow> [OpenDocumentPicker, ConsoleError, Alert CouldNotOpenPDFFile]
         | PickerCanceled \<Rightarrow> [OpenDocumentPicker, Alert OpenPDFUseShareButton]
         | PickerAssets assets \<Rightarrow> [OpenDocumentPicker]))"

text \<open>The \<open>pdfFiles.find(...)\<close> of \<open>searchAndOpenPDF\<close>.\<close>

definition matchingFile :: "platform \<Rightarrow> PDFFile list \<Rightarrow> jsstring \<Rightarrow> PDFFile option" where
  "matchingFile p files bc =
     find (\<lambda>file. toLowerCase p (barcode file) = toLowerCase p bc) files"

text \<open>\<open>searchAndOpenPDF\<close> first waits at \<open>await FileSystem.getInfoAsync\<close>, which it
  reaches only when an entry matches: the alerts for an empty list and for no match come
  before, everything else after.\<close>

definition searchAndOpenPDF :: "platform \<Rightarrow> jsstring \<Rightarrow> app \<Rightarrow> app \<times> effect list \<times> effect list" where
  "searchAndOpenPDF p bc s =
     (if length (pdfFiles s) = 0 then (s, [Alert NoPDFsAvailable], [])
      else
        (case matchingFile p (pdfFiles s) bc of
           Some file \<Rightarrow>
             (case getInfoAsync p (uri file) of
                None \<Rightarrow>
                  (s\<lparr>isProcessing := False\<rparr>, [], [ConsoleError, Alert FailedToOpenPDFFile])
              | Some ex \<Rightarrow>
                  if ex then
                    (s\<lparr>isProcessing := False\<rparr>, [], openPDFWithIntent p (uri file) (name file))
                  else
                    (s\<lparr>isProcessing := False\<rparr>, [],
                     [Alert (FileNoLongerAvailable (name file) (uri file))]))
         | None \<Rightarrow>
             (s\<lparr>isProcessing := False\<rparr>,
              [Alert (NoPDFFoundForBarcode bc (length (pdfFiles s)))], [])))"

text \<open>The scan handler. It calls \<open>searchAndOpenPDF\<close> without \<open>await\<close> and then starts
  the timer that resets \<open>scanned\<close> two seconds later (\<open>scanTimeout\<close>): the timer is
  started after what \<open>searchAndOpenPDF\<close> does before it first waits, and before the
  rest.\<close>

definition handleBarCodeScanned :: "platform \<Rightarrow> jsstring \<Rightarrow> app \<Rightarrow> app \<times> effect list" where
  "handleBarCodeScanned p d s =
     (if scanned s \<or> isProcessing s then (s, [])
      else if length d \<noteq> 14 then (s, [])
      else
        (let s1 = s\<lparr>scanned := True, lastScan := Some \<lparr>data = d, timestamp = dateNow p\<rparr>\<rparr>;
             bc = substring d 0 8
         in case searchAndOpenPDF p bc s1 of
              (s2, before, after) \<Rightarrow> (s2, before @ [SetTimeout 2000] @ after)))"

definition scanTimeout :: "app \<Rightarrow> app" where
  "scanTimeout s = s\<lparr>scanned := False\<rparr>"

text \<open>What the component renders. \<open>CameraScreen attached\<close> is the main screen with the
  \<open>CameraView\<close>, whose \<open>onBarcodeScanned\<close> is the scan handler when \<open>attached\<close> and
  \<open>undefined\<close> otherwise.\<close>

datatype screen =
    LoadingScreen
  | RequestingPermissionScreen
  | PermissionDeniedScreen
  | SetupScreen
  | FileManagerScreen
  | CameraScreen bool

definition render :: "app \<Rightarrow> screen" where
  "render s =
     (if isLoading s then LoadingScreen
      else if hasPermission s = None then RequestingPermissionScreen
      else if hasPermission s = Some False then PermissionDeniedScreen
      else if length (pdfFiles s) = 0 then SetupScreen
      else if isManaging s then FileManagerScreen
      else CameraScreen (\<not> scanned s))"

text \<open>The camera reports a decoded barcode: the rendered screen decides whether a
  handler receives it.\<close>

definition onBarcodeScanned :: "platform \<Rightarrow> jsstring \<Rightarrow> app \<Rightarrow> app \<times> effect list" where
  "onBarcodeScanned p d s =
     (case render s of
        CameraScreen attached \<Rightarrow> if attached then handleBarCodeScanned p d s else (s, [])
      | _ \<Rightarrow> (s, []))"

section \<open>Storage-access-framework variant\<close>

text \<open>The second \<open>App.tsx\<close>. Its names carry the suffix \<open>_saf\<close> where the picker-based
  variant has the same name.\<close>

definition STORAGE_KEY_saf :: jsstring where
  "STORAGE_KEY_saf = lit ''@factory_scanner_directory''"

definition LAST_SCAN_KEY :: jsstring where
  "LAST_SCAN_KEY = lit ''@factory_scanner_last_scan''"

record app_saf =
  hasPermission_saf :: "bool option"
  scanned_saf :: bool
  isLoading_saf :: bool
  lastScan_saf :: "ScanResult option"
  isProcessing_saf :: bool
  directoryPermission :: "DirectoryPermission option"
  pdfFiles_saf :: "jsstring list"
  isFlashlightOn :: bool
  storage_saf :: async_storage

text \<open>\<open>saveLastScan\<close> waits for \<open>setItem\<close> at once: what it reports, it reports after its
  caller has gone on.\<close>

definition saveLastScan :: "platform \<Rightarrow> ScanResult \<Rightarrow> app_saf \<Rightarrow> app_saf \<times> effect list" where
  "saveLastScan p scanResult s =
     (case setItem p LAST_SCAN_KEY (stringifyScanResult p scanResult) (storage_saf s) of
        None \<Rightarrow> (s, [ConsoleError])
      | Some st \<Rightarrow> (s\<lparr>storage_saf := st\<rparr>, []))"

text \<open>The local \<open>pdfFiles\<close> (the filtered list) is only counted for the log line; the
  state receives \<open>files\<close>.\<close>

definition loadPDFFilesFromDirectory :: "platform \<Rightarrow> jsstring \<Rightarrow> app_saf \<Rightarrow> app_saf \<times> effect list" where
  "loadPDFFilesFromDirectory p dirUri s =
     (case readDirectoryAsync p dirUri of
        None \<Rightarrow> (s\<lparr>isLoading_saf := False\<rparr>, [ConsoleError, Alert FailedToLoadPDFFiles])
      | Some files \<Rightarrow>
          (let pdfs = filter (\<lambda>u. endsWith (toLowerCase p u) (lit ''.pdf'')) files
           in (s\<lparr>pdfFiles_saf := files, isLoading_saf := False\<rparr>,
               [ConsoleLog (FoundPDFFiles (length pdfs))])))"

definition getStringAfterLastSlash :: "jsstring \<Rightarrow> jsstring" where
  "getStringAfterLastSlash u =
     (let lastSlashIndex = lastIndexOf u (lit ''%2F'')
      in if lastSlashIndex \<noteq> - 1 then substringFrom u (nat (lastSlashIndex + 3)) else u)"

text \<open>\<open>openPDFWithIntent\<close> calls the launcher and waits for it: the call comes before
  the first wait, the report of a failed launch after.\<close>

definition openPDFWithIntent_saf :: "platform \<Rightarrow> jsstring \<Rightarrow> effect list \<times> effect list" where
  "openPDFWithIntent_saf p u =
     (if platformOS p = Android then
        ([StartActivity u],
         if startActivityAsync p u then [] else [ConsoleError, Alert CouldNotOpenPDF])
      else ([], []))"

text \<open>\<open>directoryPermission?.granted\<close>.\<close>

definition directoryGranted :: "app_saf \<Rightarrow> bool" where
  "directoryGranted s = (case directoryPermission s of None \<Rightarrow> False | Some d \<Rightarrow> granted d)"

text \<open>The \<open>pdfFiles.filter(...)\<close> of \<open>searchAndOpenPDF\<close>.\<close>

definition matchingFiles :: "platform \<Rightarrow> jsstring list \<Rightarrow> jsstring \<Rightarrow> jsstring list" where
  "matchingFiles p files bc =
     filter (\<lambda>u. toLowerCase p (getStringAfterLastSlash u) = toLowerCase p bc @ lit ''.pdf'') files"

text \<open>\<open>searchAndOpenPDF\<close> first waits at \<open>await openPDFWithIntent(...)\<close>, that is where
  \<open>openPDFWithIntent\<close> first waits.\<close>

definition searchAndOpenPDF_saf :: "platform \<Rightarrow> jsstring \<Rightarrow> app_saf
    \<Rightarrow> app_saf \<times> effect list \<times> effect list" where
  "searchAndOpenPDF_saf p bc s =
     (if \<not> directoryGranted s \<or> length (pdfFiles_saf s) = 0
      then (s, [Alert NoPDFsAvailable], [])
      else
        (case matchingFiles p (pdfFiles_saf s) bc of
           u # rest \<Rightarrow>
             (case openPDFWithIntent_saf p u of
                (before, after) \<Rightarrow> (s\<lparr>isProcessing_saf := False\<rparr>, before, after))
         | [] \<Rightarrow>
             (s\<lparr>isProcessing_saf := False\<rparr>,
              [Alert (NoPDFFoundForBarcode bc (length (pdfFiles_saf s)))], [])))"

text \<open>The scan handler calls \<open>saveLastScan\<close> and \<open>searchAndOpenPDF\<close> without \<open>await\<close> and
  then starts the timer. Of what the two report afterwards, the source does not fix
  which comes first; the report of \<open>saveLastScan\<close>, which was called first, stands first.\<close>

definition handleBarCodeScanned_saf :: "platform \<Rightarrow> jsstring \<Rightarrow> app_saf \<Rightarrow> app_saf \<times> effect list" where
  "handleBarCodeScanned_saf p d s =
     (if scanned_saf s \<or> isProcessing_saf s then (s, [])
      else if length d \<noteq> 14 then (s, [])
      else
        (let scanResult = \<lparr>data = d, timestamp = dateNow p\<rparr>;
             s1 = s\<lparr>scanned_saf := True, lastScan_saf := Some scanResult\<rparr>;
             bc = substring d 0 8
         in case saveLastScan p scanResult s1 of
              (s2, es1) \<Rightarrow>
                (case searchAndOpenPDF_saf p bc s2 of
                   (s3, before, after) \<Rightarrow> (s3, before @ [SetTimeout 2000] @ es1 @ after))))"

definition scanTimeout_saf :: "app_saf \<Rightarrow> app_saf" where
  "scanTimeout_saf s = s\<lparr>scanned_saf := False\<rparr>"

datatype screen_saf =
    LoadingScreen_saf
  | RequestingPermissionScreen_saf
  | PermissionDeniedScreen_saf
  | SelectFolderScreen
  | CameraScreen_saf bool

definition render_saf :: "app_saf \<Rightarrow> screen_saf" where
  "render_saf s =
     (if isLoading_saf s then LoadingScreen_saf
      else if hasPermission_saf s = None then RequestingPermissionScreen_saf
      else if hasPermission_saf s = Some False then PermissionDeniedScreen_saf
      else if \<not> directoryGranted s then SelectFolderScreen
      else CameraScreen_saf (\<not> scanned_saf s))"

definition onBarcodeScanned_saf :: "platform \<Rightarrow> jsstring \<Rightarrow> app_saf \<Rightarrow> app_saf \<times> effect list" where
  "onBarcodeScanned_saf p d s =
     (case render_saf s of
        CameraScreen_saf attached \<Rightarrow> if attached then handleBarCodeScanned_saf p d s else (s, [])
      | _ \<Rightarrow> (s, []))"

section \<open>Concrete platforms and inputs\<close>

text \<open>A serialisation of a file list that \<open>parseFilesDemo\<close> reads back: every string is
  written with its length in front.\<close>

definition encodeNat :: "nat \<Rightarrow> jsstring" where
  "encodeNat n = replicate n 0x31 @ [0x3B]"

fun decodeNat :: "jsstring \<Rightarrow> (nat \<times> jsstring) option" where
  "decodeNat [] = None"
| "decodeNat (c # cs) =
     (if c = 0x3B then Some (0, cs)
      else if c = 0x31 then (case decodeNat cs of None \<Rightarrow> None | Some (n, r) \<Rightarrow> Some (Suc n, r))
      else None)"

definition encodeStr :: "jsstring \<Rightarrow> jsstring" where
  "encodeStr s = encodeNat (length s) @ s"

definition decodeStr :: "jsstring \<Rightarrow> (jsstring \<times> jsstring) option" where
  "decodeStr t =
     (case decodeNat t of
        None \<Rightarrow> None
      | Some (n, r) \<Rightarrow> if n \<le> length r then Some (take n r, drop n r) else None)"

definition encodeFile :: "PDFFile \<Rightarrow> jsstring" where
  "encodeFile f = encodeStr (name f) @ encodeStr (uri f) @ encodeNat (fsize f) @ encodeStr (barcode f)"

definition decodeFile :: "jsstring \<Rightarrow> (PDFFile \<times> jsstring) option" where
  "decodeFile t =
     (case decodeStr t of
        None \<Rightarrow> None
      | Some (n, r1) \<Rightarrow>
          (case decodeStr r1 of
             None \<Rightarrow> None
           | Some (u, r2) \<Rightarrow>
               (case decodeNat r2 of
                  None \<Rightarrow> None
                | Some (sz, r3) \<Rightarrow>
                    (case decodeStr r3 of
                       None \<Rightarrow> None
                     | Some (b, r4) \<Rightarrow>
                         Some (\<lparr>name = n, uri = u, fsize = sz, barcode = b\<rparr>, r4)))))"

definition stringifyFilesDemo :: "PDFFile list \<Rightarrow> jsstring" where
  "stringifyFilesDemo fs = 0x5B # concat (map encodeFile fs) @ [0x5D]"

fun decodeFiles :: "nat \<Rightarrow> jsstring \<Rightarrow> PDFFile list option" where
  "decodeFiles 0 t = None"
| "decodeFiles (Suc k) t =
     (if t = [0x5D] then Some []
      else
        (case decodeFile t of
           None \<Rightarrow> None
         | Some (f, r) \<Rightarrow> (case decodeFiles k r of None \<Rightarrow> None | Some fs \<Rightarrow> Some (f # fs))))"

definition parseFilesDemo :: "jsstring \<Rightarrow> PDFFile list option" where
  "parseFilesDemo t = (case t of [] \<Rightarrow> None | c # r \<Rightarrow> if c = 0x5B then decodeFiles (Suc (length r)) r else None)"

definition androidPlatform :: platform where
  "androidPlatform = \<lparr>platformOS = Android, toLowerCase = asciiLower, dateNow = 0,
     requestCameraPermissionsAsync = Some True, getInfoAsync = (\<lambda>u. Some True),
     startActivityAsync = (\<lambda>u. True), getDocumentAsync = PickerCanceled,
     readDirectoryAsync = (\<lambda>u. None), getItemResolves = True, setItemResolves = True,
     stringifyFiles = stringifyFilesDemo, parseFiles = parseFilesDemo,
     stringifyScanResult = data\<rparr>"

definition iosPlatform :: platform where
  "iosPlatform = androidPlatform\<lparr>platformOS := Ios\<rparr>"

text \<open>The state hooks' initial values, on a device whose AsyncStorage is empty.\<close>

definition initialApp :: app where
  "initialApp = \<lparr>hasPermission = None, scanned = False, pdfFiles = [], isLoading = True,
     lastScan = None, isProcessing = False, isManaging = False, storage = Map.empty\<rparr>"

definition initialApp_saf :: app_saf where
  "initialApp_saf = \<lparr>hasPermission_saf = None, scanned_saf = False, isLoading_saf = True,
     lastScan_saf = None, isProcessing_saf = False, directoryPermission = None,
     pdfFiles_saf = [], isFlashlightOn = False, storage_saf = Map.empty\<rparr>"

definition file1 :: PDFFile where
  "file1 = \<lparr>name = lit ''AB123456.pdf'', uri = lit ''content://docs/AB123456.pdf'',
     fsize = 10, barcode = lit ''AB123456''\<rparr>"

definition file2 :: PDFFile where
  "file2 = \<lparr>name = lit ''ab123456.pdf'', uri = lit ''content://docs/ab123456.pdf'',
     fsize = 20, barcode = lit ''ab123456''\<rparr>"

text \<open>Permission granted, loading finished, one file known.\<close>

definition readyApp :: app where
  "readyApp = initialApp\<lparr>hasPermission := Some True, isLoading := False, pdfFiles := [file1]\<rparr>"

definition readyApp_saf :: app_saf where
  "readyApp_saf = initialApp_saf\<lparr>hasPermission_saf := Some True, isLoading_saf := False,
     directoryPermission := Some \<lparr>granted = True, directoryUri = lit ''content://tree/docs''\<rparr>,
     pdfFiles_saf := [lit ''content://tree/docs/document/docs%2FAB123456.pdf'']\<rparr>"

definition payload :: jsstring where
  "payload = lit ''ab123456000017''"

section \<open>Vocabulary of the properties\<close>

text \<open>Equality of two strings under case-insensitive comparison, as the source writes
  it: both sides lower-cased.\<close>

definition equalsIgnoreCase :: "platform \<Rightarrow> jsstring \<Rightarrow> jsstring \<Rightarrow> bool" where
  "equalsIgnoreCase p a b \<longleftrightarrow> toLowerCase p a = toLowerCase p b"

text \<open>The storage-access-framework variant stores no stem: a listed URI stands for the
  barcode \<open>key\<close> when its part after the last \<open>%2F\<close>, lower-cased, is the lower-cased key
  followed by \<open>.pdf\<close>.\<close>

definition namesBarcode :: "platform \<Rightarrow> jsstring \<Rightarrow> jsstring \<Rightarrow> bool" where
  "namesBarcode p u key \<longleftrightarrow>
     toLowerCase p (getStringAfterLastSlash u) = toLowerCase p key @ lit ''.pdf''"

text \<open>All effects of a function that gives them in two parts.\<close>

definition effectsOf :: "'a \<times> effect list \<times> effect list \<Rightarrow> effect list" where
  "effectsOf r = fst (snd r) @ snd (snd r)"

text \<open>The URIs handed to the intent launcher, and the alerts shown, in a handler's
  effects.\<close>

fun launched :: "effect list \<Rightarrow> jsstring list" where
  "launched [] = []"
| "launched (StartActivity u # es) = u # launched es"
| "launched (e # es) = launched es"

fun alerts :: "effect list \<Rightarrow> alert list" where
  "alerts [] = []"
| "alerts (Alert a # es) = a # alerts es"
| "alerts (e # es) = alerts es"

text \<open>The ways a lookup-and-open sequence fails. The launch throws when
  \<open>startActivityAsync\<close> rejects; where the platform is not Android the picker-based
  variant opens the document picker instead, and that call can reject.\<close>

definition launchThrows :: "platform \<Rightarrow> jsstring \<Rightarrow> bool" where
  "launchThrows p u =
     (if platformOS p = Android then \<not> startActivityAsync p u
      else getDocumentAsync p = PickerRejected)"

text \<open>Picker-based variant: no entry matches, or \<open>getInfoAsync\<close> throws, or the matched
  file no longer exists, or the launch throws.\<close>

definition openFails :: "platform \<Rightarrow> jsstring \<Rightarrow> app \<Rightarrow> bool" where
  "openFails p bc s =
     (case matchingFile p (pdfFiles s) bc of
        None \<Rightarrow> True
      | Some f \<Rightarrow>
          (case getInfoAsync p (uri f) of
             None \<Rightarrow> True
           | Some ex \<Rightarrow> if ex then launchThrows p (uri f) else True))"

text \<open>Storage-access-framework variant: no folder is granted, or no URI matches, or the
  launch throws.\<close>

definition openFails_saf :: "platform \<Rightarrow> jsstring \<Rightarrow> app_saf \<Rightarrow> bool" where
  "openFails_saf p bc t =
     (if directoryGranted t then
        (case matchingFiles p (pdfFiles_saf t) bc of
           [] \<Rightarrow> True
         | u # rest \<Rightarrow> platformOS p = Android \<and> \<not> startActivityAsync p u)
      else True)"

text \<open>A file name has a \<open>.pdf\<close> extension, matched case-insensitively, when its last four
  code units lower-case to \<open>.pdf\<close>; its stem is the name without that extension, and the
  whole name when there is none.\<close>

definition hasPdfExtension :: "jsstring \<Rightarrow> bool" where
  "hasPdfExtension f \<longleftrightarrow> 4 \<le> length f \<and> asciiLower (drop (length f - 4) f) = lit ''.pdf''"

definition stemOf :: "jsstring \<Rightarrow> jsstring" where
  "stemOf f = (if hasPdfExtension f then take (length f - 4) f else f)"

text \<open>A non-empty string of ASCII letters and digits.\<close>

definition isAlnumString :: "jsstring \<Rightarrow> bool" where
  "isAlnumString s \<longleftrightarrow> s \<noteq> [] \<and> (\<forall>c\<in>set s. isAlnumUnit c)"

text \<open>The name under which \<open>addPDFFiles\<close> records an asset has a valid shape.\<close>

definition validName :: "asset \<Rightarrow> bool" where
  "validName a = isAlnumString (stemOf (fileNameOf a))"

text \<open>The entry recorded for an asset: its barcode is the stem of the recorded name.\<close>

definition entryOf :: "asset \<Rightarrow> PDFFile" where
  "entryOf a = \<lparr>name = fileNameOf a, uri = asset_uri a, fsize = sizeOf a,
     barcode = stemOf (fileNameOf a)\<rparr>"

text \<open>An entry of the file index whose barcode is the alphanumeric stem of its name.\<close>

definition wellNamed :: "PDFFile \<Rightarrow> bool" where
  "wellNamed f \<longleftrightarrow> isAlnumString (stemOf (name f)) \<and> barcode f = stemOf (name f)"

text \<open>The assets the document picker returned, none when it was cancelled or rejected.\<close>

definition picked :: "platform \<Rightarrow> asset list" where
  "picked p = (case getDocumentAsync p of PickerAssets as \<Rightarrow> as | _ \<Rightarrow> [])"

text \<open>A picked asset is accepted when its URI is not in the list yet and its recorded
  name has a valid shape.\<close>

definition accepted :: "app \<Rightarrow> asset \<Rightarrow> bool" where
  "accepted s a \<longleftrightarrow> asset_uri a \<notin> uri ` set (pdfFiles s) \<and> validName a"

text \<open>A sequence of add-file operations, each with the platform's answers at its time.\<close>

fun addSequence :: "platform list \<Rightarrow> app \<Rightarrow> app" where
  "addSequence [] s = s"
| "addSequence (p # ps) s = addSequence ps (fst (addPDFFiles p s))"

section \<open>Further concrete inputs\<close>

text \<open>Pickers that return given assets, a directory listing, a viewer that cannot be
  started, and assets with pairwise different URIs.\<close>

definition pickPlatform :: "asset list \<Rightarrow> platform" where
  "pickPlatform as = androidPlatform\<lparr>getDocumentAsync := PickerAssets as\<rparr>"

definition listingPlatform :: "jsstring list \<Rightarrow> platform" where
  "listingPlatform files = androidPlatform\<lparr>readDirectoryAsync := (\<lambda>u. Some files)\<rparr>"

definition brokenViewerPlatform :: platform where
  "brokenViewerPlatform = androidPlatform\<lparr>startActivityAsync := (\<lambda>u. False)\<rparr>"

definition numberedAsset :: "nat \<Rightarrow> asset" where
  "numberedAsset k = \<lparr>asset_name = lit ''1.pdf'', asset_uri = replicate k 0x61, asset_size = None\<rparr>"

definition bulkPlatform :: "nat \<Rightarrow> platform" where
  "bulkPlatform n = pickPlatform (map numberedAsset [0..<n])"

definition namelessAsset :: asset where
  "namelessAsset = \<lparr>asset_name = [], asset_uri = lit ''content://docs/1'', asset_size = None\<rparr>"

definition renamedAsset :: asset where
  "renamedAsset = \<lparr>asset_name = lit ''bad name.pdf'', asset_uri = uri file1, asset_size = Some 10\<rparr>"

definition plainAsset :: asset where
  "plainAsset = \<lparr>asset_name = lit ''12345'', asset_uri = lit ''content://docs/12345'',
     asset_size = Some 7\<rparr>"

definition notesUri :: jsstring where
  "notesUri = lit ''content://tree/docs/document/docs%2Fnotes.txt''"

definition manualUri :: jsstring where
  "manualUri = lit ''content://tree/docs/document/docs%2FAB123456.pdf''"

definition unmatchedPayload :: jsstring where
  "unmatchedPayload = lit ''zz999999000017''"

definition spacedAsset :: asset where
  "spacedAsset = \<lparr>asset_name = lit ''my file.pdf'', asset_uri = lit ''content://docs/2'',
     asset_size = Some 3\<rparr>"

section \<open>The scan handler\<close>

lemma substring_0_8: "length d = 14 \<Longrightarrow> substring d 0 8 = take 8 d"
  by (simp add: substring_def Let_def)

text \<open>
  C1. A payload whose length is not 14 leaves both handlers without any effect and
  without any change of state. A payload of length 14 that reaches a handler which is
  not blocked (\<open>scanned\<close>, \<open>isProcessing\<close>) is looked up under its first 8 code units:
  the handler's result is that of \<open>searchAndOpenPDF\<close> called with \<open>take 8 d\<close>, with the
  start of the timer among its effects.
\<close>

theorem scan_handler_length_gate:
  "(length d \<noteq> 14 \<longrightarrow>
      handleBarCodeScanned p d s = (s, []) \<and> handleBarCodeScanned_saf p d t = (t, []))
   \<and> (length d = 14 \<and> \<not> scanned s \<and> \<not> isProcessing s \<longrightarrow>
        length (take 8 d) = 8
        \<and> handleBarCodeScanned p d s =
            (case searchAndOpenPDF p (take 8 d)
                    (s\<lparr>scanned := True, lastScan := Some \<lparr>data = d, timestamp = dateNow p\<rparr>\<rparr>) of
               (s2, before, after) \<Rightarrow> (s2, before @ [SetTimeout 2000] @ after)))
   \<and> (length d = 14 \<and> \<not> scanned_saf t \<and> \<not> isProcessing_saf t \<longrightarrow>
        handleBarCodeScanned_saf p d t =
            (let scanResult = \<lparr>data = d, timestamp = dateNow p\<rparr>
             in case saveLastScan p scanResult
                      (t\<lparr>scanned_saf := True, lastScan_saf := Some scanResult\<rparr>) of
                  (t2, es1) \<Rightarrow>
                    (case searchAndOpenPDF_saf p (take 8 d) t2 of
                       (t3, before, after) \<Rightarrow>
                         (t3, before @ [SetTimeout 2000] @ es1 @ after))))"
  by (simp add: handleBarCodeScanned_def handleBarCodeScanned_saf_def substring_0_8 Let_def)

theorem scan_handler_length_gate_witness:
  "length payload = 14 \<and> \<not> scanned readyApp \<and> \<not> isProcessing readyApp
   \<and> take 8 payload = lit ''ab123456''
   \<and> handleBarCodeScanned androidPlatform payload readyApp =
       (case searchAndOpenPDF androidPlatform (lit ''ab123456'')
               (readyApp\<lparr>scanned := True,
                  lastScan := Some \<lparr>data = payload, timestamp = 0\<rparr>\<rparr>) of
          (s2, before, after) \<Rightarrow> (s2, before @ [SetTimeout 2000] @ after))
   \<and> snd (handleBarCodeScanned androidPlatform payload readyApp) =
       [SetTimeout 2000, StartActivity (uri file1)]
   \<and> \<not> scanned_saf readyApp_saf \<and> \<not> isProcessing_saf readyApp_saf
   \<and> snd (handleBarCodeScanned_saf androidPlatform payload readyApp_saf) =
       [StartActivity (lit ''content://tree/docs/document/docs%2FAB123456.pdf''), SetTimeout 2000]
   \<and> length (lit ''ab123456'') \<noteq> 14
   \<and> handleBarCodeScanned androidPlatform (lit ''ab123456'') readyApp = (readyApp, [])
   \<and> handleBarCodeScanned_saf androidPlatform (lit ''ab123456'') readyApp_saf = (readyApp_saf, [])"
  using scan_handler_length_gate
      [where d = payload and p = androidPlatform and s = readyApp and t = readyApp_saf]
    scan_handler_length_gate
      [where d = "lit ''ab123456''" and p = androidPlatform and s = readyApp and t = readyApp_saf]
  by (simp add: payload_def readyApp_def readyApp_saf_def initialApp_def initialApp_saf_def
      androidPlatform_def file1_def lit_def asciiLower_def
      searchAndOpenPDF_def matchingFile_def openPDFWithIntent_def
      saveLastScan_def setItem_def searchAndOpenPDF_saf_def directoryGranted_def matchingFiles_def
      getStringAfterLastSlash_def lastIndexOf_def substringFrom_def openPDFWithIntent_saf_def)

section \<open>The lookup\<close>

lemma find_first_index:
  "find P xs = Some x \<longleftrightarrow> (\<exists>i<length xs. xs ! i = x \<and> P x \<and> (\<forall>j<i. \<not> P (xs ! j)))"
  by (auto simp: find_Some_iff)

lemma filter_first_index:
  "(\<exists>rest. filter P xs = x # rest) \<longleftrightarrow>
     (\<exists>i<length xs. xs ! i = x \<and> P x \<and> (\<forall>j<i. \<not> P (xs ! j)))"
proof
  assume "\<exists>rest. filter P xs = x # rest"
  then obtain rest where "filter P xs = x # rest" ..
  then obtain us vs where xs: "xs = us @ x # vs" and us: "\<forall>u\<in>set us. \<not> P u" and px: "P x"
    by (auto simp: filter_eq_Cons_iff)
  have "length us < length xs" "xs ! length us = x" using xs by auto
  moreover have "\<forall>j<length us. \<not> P (xs ! j)" using xs us by (auto simp: nth_append)
  ultimately show "\<exists>i<length xs. xs ! i = x \<and> P x \<and> (\<forall>j<i. \<not> P (xs ! j))"
    using px by blast
next
  assume "\<exists>i<length xs. xs ! i = x \<and> P x \<and> (\<forall>j<i. \<not> P (xs ! j))"
  then obtain i where i: "i < length xs" "xs ! i = x" "P x" "\<forall>j<i. \<not> P (xs ! j)" by blast
  have xs: "xs = take i xs @ x # drop (Suc i) xs"
    using i by (metis id_take_nth_drop)
  have "\<forall>u\<in>set (take i xs). \<not> P u"
    using i by (auto simp: in_set_conv_nth)
  then have "filter P (take i xs) = []" by (simp add: filter_empty_conv)
  then have "filter P xs = x # filter P (drop (Suc i) xs)"
    using i(3) by (subst xs) simp
  then show "\<exists>rest. filter P xs = x # rest" by blast
qed

text \<open>
  C3. The lookup of the picker-based variant (\<open>pdfFiles.find\<close>) returns no entry exactly
  when no entry's stored barcode equals the key case-insensitively, and returns \<open>f\<close>
  exactly when \<open>f\<close> stands at the first index, in list order, whose barcode equals the key
  case-insensitively. The lookup of the storage-access-framework variant
  (\<open>pdfFiles.filter\<close>, of which the first element is opened) is empty exactly when no URI
  names the key, and its first element is the first URI of the list that names it.
\<close>

theorem lookup_first_match:
  "(matchingFile p files key = None \<longleftrightarrow>
      (\<forall>f\<in>set files. \<not> equalsIgnoreCase p (barcode f) key))
   \<and> (matchingFile p files key = Some f \<longleftrightarrow>
        (\<exists>i<length files. files ! i = f \<and> equalsIgnoreCase p (barcode f) key
           \<and> (\<forall>j<i. \<not> equalsIgnoreCase p (barcode (files ! j)) key)))
   \<and> (matchingFiles p uris key = [] \<longleftrightarrow> (\<forall>u\<in>set uris. \<not> namesBarcode p u key))
   \<and> ((\<exists>rest. matchingFiles p uris key = u # rest) \<longleftrightarrow>
        (\<exists>i<length uris. uris ! i = u \<and> namesBarcode p u key
           \<and> (\<forall>j<i. \<not> namesBarcode p (uris ! j) key)))"
proof -
  have a: "matchingFile p files key = None \<longleftrightarrow>
      (\<forall>f\<in>set files. \<not> equalsIgnoreCase p (barcode f) key)"
    by (auto simp: matchingFile_def equalsIgnoreCase_def find_None_iff)
  have b: "matchingFile p files key = Some f \<longleftrightarrow>
        (\<exists>i<length files. files ! i = f \<and> equalsIgnoreCase p (barcode f) key
           \<and> (\<forall>j<i. \<not> equalsIgnoreCase p (barcode (files ! j)) key))"
    unfolding matchingFile_def equalsIgnoreCase_def by (rule find_first_index)
  have c: "matchingFiles p uris key = [] \<longleftrightarrow> (\<forall>u\<in>set uris. \<not> namesBarcode p u key)"
    by (auto simp: matchingFiles_def namesBarcode_def filter_empty_conv)
  have d: "(\<exists>rest. matchingFiles p uris key = u # rest) \<longleftrightarrow>
        (\<exists>i<length uris. uris ! i = u \<and> namesBarcode p u key
           \<and> (\<forall>j<i. \<not> namesBarcode p (uris ! j) key))"
    unfolding matchingFiles_def namesBarcode_def by (rule filter_first_index)
  from a b c d show ?thesis by blast
qed

theorem lookup_first_match_witness:
  "matchingFile androidPlatform [file1, file2] (lit ''ab123456'') = Some file1
   \<and> equalsIgnoreCase androidPlatform (barcode file1) (lit ''ab123456'')
   \<and> equalsIgnoreCase androidPlatform (barcode file2) (lit ''ab123456'')
   \<and> [file1, file2] ! 0 = file1
   \<and> matchingFile androidPlatform [file1, file2] (lit ''zz999999'') = None
   \<and> matchingFiles androidPlatform (pdfFiles_saf readyApp_saf) (lit ''ab123456'')
       = [lit ''content://tree/docs/document/docs%2FAB123456.pdf'']
   \<and> matchingFiles androidPlatform (pdfFiles_saf readyApp_saf) (lit ''zz999999'') = []"
  using lookup_first_match [where p = androidPlatform and files = "[file1, file2]"
      and key = "lit ''ab123456''" and f = file1 and uris = "pdfFiles_saf readyApp_saf"
      and u = "lit ''content://tree/docs/document/docs%2FAB123456.pdf''"]
    lookup_first_match [where p = androidPlatform and files = "[file1, file2]"
      and key = "lit ''zz999999''" and f = file1 and uris = "pdfFiles_saf readyApp_saf"
      and u = "lit ''content://tree/docs/document/docs%2FAB123456.pdf''"]
  by (simp add: matchingFile_def matchingFiles_def equalsIgnoreCase_def namesBarcode_def
      androidPlatform_def file1_def file2_def readyApp_saf_def initialApp_saf_def lit_def
      asciiLower_def getStringAfterLastSlash_def lastIndexOf_def substringFrom_def)

section \<open>The permission gate\<close>

text \<open>
  C8. While camera permission is not granted (\<open>hasPermission\<close> is \<open>null\<close> or \<open>false\<close>), neither
  variant renders the camera view, so no scan handler is attached, and a barcode the
  camera would report changes nothing and has no effect: no lookup, no launch.
\<close>

theorem permission_gate:
  "(hasPermission s \<noteq> Some True \<longrightarrow>
      (\<forall>a. render s \<noteq> CameraScreen a) \<and> onBarcodeScanned p d s = (s, []))
   \<and> (hasPermission_saf t \<noteq> Some True \<longrightarrow>
      (\<forall>a. render_saf t \<noteq> CameraScreen_saf a) \<and> onBarcodeScanned_saf p d t = (t, []))"
  by (cases "hasPermission s"; cases "hasPermission_saf t")
     (auto simp: render_def render_saf_def onBarcodeScanned_def onBarcodeScanned_saf_def)

theorem permission_gate_witness:
  "hasPermission initialApp \<noteq> Some True
   \<and> render (initialApp\<lparr>isLoading := False\<rparr>) = RequestingPermissionScreen
   \<and> render (readyApp\<lparr>hasPermission := Some False\<rparr>) = PermissionDeniedScreen
   \<and> onBarcodeScanned androidPlatform payload (readyApp\<lparr>hasPermission := Some False\<rparr>)
       = (readyApp\<lparr>hasPermission := Some False\<rparr>, [])
   \<and> hasPermission_saf (readyApp_saf\<lparr>hasPermission_saf := None\<rparr>) \<noteq> Some True
   \<and> onBarcodeScanned_saf androidPlatform payload (readyApp_saf\<lparr>hasPermission_saf := None\<rparr>)
       = (readyApp_saf\<lparr>hasPermission_saf := None\<rparr>, [])
   \<and> render readyApp = CameraScreen True
   \<and> snd (onBarcodeScanned androidPlatform payload readyApp)
       = [SetTimeout 2000, StartActivity (uri file1)]"
  using permission_gate [where s = "readyApp\<lparr>hasPermission := Some False\<rparr>" and p = androidPlatform
      and d = payload and t = "readyApp_saf\<lparr>hasPermission_saf := None\<rparr>"]
  by (simp add: render_def onBarcodeScanned_def handleBarCodeScanned_def substring_def
      payload_def readyApp_def readyApp_saf_def initialApp_def initialApp_saf_def
      androidPlatform_def file1_def lit_def asciiLower_def
      searchAndOpenPDF_def matchingFile_def openPDFWithIntent_def)

section \<open>Persistence\<close>

lemma validFiles_loop_all_exist:
  "\<forall>f\<in>set files. getInfoAsync p (uri f) = Some True \<Longrightarrow>
     validFiles_loop p files acc es = (acc @ files, es)"
  by (induction files arbitrary: acc) auto

lemma loadPDFFiles_reads_back:
  assumes "storage t STORAGE_KEY = Some (stringifyFiles p files)"
    and "getItemResolves q"
    and "stringifyFiles p files \<noteq> []"
    and "parseFiles q (stringifyFiles p files) = Some files"
    and "\<forall>f\<in>set files. getInfoAsync q (uri f) = Some True"
  shows "loadPDFFiles q t = (t\<lparr>pdfFiles := files, isLoading := False\<rparr>, [])"
  using assms(1,2,3,4) validFiles_loop_all_exist [OF assms(5), of "[]" "[]"]
  by (simp add: loadPDFFiles_def getItem_def)

lemma addPDFFiles_persists:
  assumes "snd (addPDFFiles p s) = [Alert (FilesAdded n dc ic)]"
  shows "storage (fst (addPDFFiles p s)) STORAGE_KEY
           = Some (stringifyFiles p (pdfFiles (fst (addPDFFiles p s))))"
  using assms
  by (auto simp: addPDFFiles_def setItem_def Let_def
      split: picker_result.splits prod.splits option.splits if_splits)

lemma removePDFFile_persists:
  assumes "snd (removePDFFile p u s) = []"
  shows "storage (fst (removePDFFile p u s)) STORAGE_KEY
           = Some (stringifyFiles p (pdfFiles (fst (removePDFFile p u s))))"
  using assms
  by (auto simp: removePDFFile_def setItem_def Let_def split: option.splits if_splits)

text \<open>
  C4. Let \<open>s'\<close> be the state after an operation of the component that writes the list:
  \<open>addPDFFiles\<close> when it reports files added, or \<open>removePDFFile\<close> when it logs no error.
  Let \<open>t\<close> be any state with the storage of \<open>s'\<close> (the same run, or a later start of the
  application), and let \<open>loadPDFFiles\<close> run there on a platform whose storage answers
  the read and on which every file of the list exists. Then \<open>loadPDFFiles\<close> puts exactly
  the list of \<open>s'\<close>, in the same order, into \<open>pdfFiles\<close>, writes nothing and reports
  nothing. \<open>JSON.stringify\<close> and \<open>JSON.parse\<close> belong to the platform: what is assumed of
  them is that parsing the text of this list gives the list back, and that the text is
  not empty.
\<close>

theorem persistence_round_trip:
  assumes "(s' = fst (addPDFFiles p s) \<and> snd (addPDFFiles p s) = [Alert (FilesAdded n dc ic)])
      \<or> (s' = fst (removePDFFile p u s) \<and> snd (removePDFFile p u s) = [])"
    and "storage t = storage s'"
    and "getItemResolves q"
    and "stringifyFiles p (pdfFiles s') \<noteq> []"
    and "parseFiles q (stringifyFiles p (pdfFiles s')) = Some (pdfFiles s')"
    and "\<forall>f\<in>set (pdfFiles s'). getInfoAsync q (uri f) = Some True"
  shows "loadPDFFiles q t = (t\<lparr>pdfFiles := pdfFiles s', isLoading := False\<rparr>, [])"
proof -
  have "storage s' STORAGE_KEY = Some (stringifyFiles p (pdfFiles s'))"
    using assms(1) addPDFFiles_persists [of p s n dc ic] removePDFFile_persists [of p u s]
    by blast
  then have "storage t STORAGE_KEY = Some (stringifyFiles p (pdfFiles s'))"
    using assms(2) by simp
  then show ?thesis
    using assms(3,4,5,6) by (rule loadPDFFiles_reads_back)
qed

lemma demo_text_nonempty: "stringifyFilesDemo fs \<noteq> []"
  by (simp add: stringifyFilesDemo_def)

lemma demo_platform_answers:
  "stringifyFiles (pickPlatform as) = stringifyFilesDemo"
  "stringifyFiles androidPlatform = stringifyFilesDemo"
  "parseFiles androidPlatform = parseFilesDemo"
  "getItemResolves androidPlatform"
  "getInfoAsync androidPlatform v = Some True"
  by (simp_all add: pickPlatform_def androidPlatform_def)

lemma demo_add_reports:
  "snd (addPDFFiles (pickPlatform [plainAsset, spacedAsset]) readyApp) = [Alert (FilesAdded 1 0 1)]"
  by code_simp

lemma demo_add_list:
  "pdfFiles (fst (addPDFFiles (pickPlatform [plainAsset, spacedAsset]) readyApp))
     = [file1, entryOf plainAsset]"
  by code_simp

lemma demo_remove_reports:
  "snd (removePDFFile androidPlatform (uri file1) (readyApp\<lparr>pdfFiles := [file1, file2]\<rparr>)) = []"
  by code_simp

lemma demo_remove_list:
  "pdfFiles (fst (removePDFFile androidPlatform (uri file1) (readyApp\<lparr>pdfFiles := [file1, file2]\<rparr>)))
     = [file2]"
  by code_simp

lemma demo_codec_files:
  "parseFilesDemo (stringifyFilesDemo [file1, entryOf plainAsset]) = Some [file1, entryOf plainAsset]"
  "parseFilesDemo (stringifyFilesDemo [file2]) = Some [file2]"
  by code_simp+

theorem persistence_round_trip_witness:
  "snd (addPDFFiles (pickPlatform [plainAsset, spacedAsset]) readyApp) = [Alert (FilesAdded 1 0 1)]
   \<and> pdfFiles (fst (addPDFFiles (pickPlatform [plainAsset, spacedAsset]) readyApp))
       = [file1, entryOf plainAsset]
   \<and> getItemResolves androidPlatform
   \<and> parseFiles androidPlatform
         (stringifyFiles (pickPlatform [plainAsset, spacedAsset]) [file1, entryOf plainAsset])
       = Some [file1, entryOf plainAsset]
   \<and> getInfoAsync androidPlatform (uri file1) = Some True
   \<and> getInfoAsync androidPlatform (uri (entryOf plainAsset)) = Some True
   \<and> loadPDFFiles androidPlatform
         (initialApp\<lparr>storage := storage (fst (addPDFFiles (pickPlatform [plainAsset, spacedAsset]) readyApp))\<rparr>)
       = (initialApp\<lparr>storage := storage (fst (addPDFFiles (pickPlatform [plainAsset, spacedAsset]) readyApp)),
            pdfFiles := [file1, entryOf plainAsset], isLoading := False\<rparr>, [])
   \<and> snd (removePDFFile androidPlatform (uri file1) (readyApp\<lparr>pdfFiles := [file1, file2]\<rparr>)) = []
   \<and> pdfFiles (fst (loadPDFFiles androidPlatform
         (fst (removePDFFile androidPlatform (uri file1) (readyApp\<lparr>pdfFiles := [file1, file2]\<rparr>)))))
       = [file2]"
  using persistence_round_trip [where p = "pickPlatform [plainAsset, spacedAsset]" and s = readyApp
      and s' = "fst (addPDFFiles (pickPlatform [plainAsset, spacedAsset]) readyApp)"
      and n = 1 and dc = 0 and ic = 1 and q = androidPlatform
      and t = "initialApp\<lparr>storage := storage (fst (addPDFFiles (pickPlatform [plainAsset, spacedAsset]) readyApp))\<rparr>"]
    persistence_round_trip [where p = androidPlatform and s = "readyApp\<lparr>pdfFiles := [file1, file2]\<rparr>"
      and u = "uri file1"
      and s' = "fst (removePDFFile androidPlatform (uri file1) (readyApp\<lparr>pdfFiles := [file1, file2]\<rparr>))"
      and q = androidPlatform
      and t = "fst (removePDFFile androidPlatform (uri file1) (readyApp\<lparr>pdfFiles := [file1, file2]\<rparr>))"]
  by (simp add: demo_platform_answers demo_add_reports demo_add_list demo_remove_reports
      demo_remove_list demo_codec_files demo_text_nonempty)

section \<open>The launcher\<close>

lemma launched_append: "launched (es @ fs) = launched es @ launched fs"
  by (induction es rule: launched.induct) auto

lemma alerts_append: "alerts (es @ fs) = alerts es @ alerts fs"
  by (induction es rule: alerts.induct) auto

lemma launched_openPDFWithIntent:
  "launched (openPDFWithIntent p u n) = (if platformOS p = Android then [u] else [])"
  by (simp add: openPDFWithIntent_def split: picker_result.splits)

lemma launched_openPDFWithIntent_saf:
  "launched (fst (openPDFWithIntent_saf p u) @ snd (openPDFWithIntent_saf p u))
     = (if platformOS p = Android then [u] else [])"
  by (simp add: openPDFWithIntent_saf_def)

lemma launched_searchAndOpenPDF:
  "launched (effectsOf (searchAndOpenPDF p bc s)) =
     (case matchingFile p (pdfFiles s) bc of
        None \<Rightarrow> []
      | Some f \<Rightarrow>
          if getInfoAsync p (uri f) = Some True \<and> platformOS p = Android then [uri f] else [])"
  by (auto simp: searchAndOpenPDF_def effectsOf_def launched_openPDFWithIntent matchingFile_def
      split: option.splits)

lemma launched_searchAndOpenPDF_saf:
  "launched (effectsOf (searchAndOpenPDF_saf p bc t)) =
     (case matchingFiles p (pdfFiles_saf t) bc of
        [] \<Rightarrow> []
      | u # rest \<Rightarrow> if directoryGranted t \<and> platformOS p = Android then [u] else [])"
  using launched_openPDFWithIntent_saf [of p]
  by (auto simp: searchAndOpenPDF_saf_def effectsOf_def matchingFiles_def
      split: list.splits prod.splits)

lemma launched_handleBarCodeScanned:
  "launched (snd (handleBarCodeScanned p d s)) =
     (if scanned s \<or> isProcessing s \<or> length d \<noteq> 14 then []
      else launched (effectsOf (searchAndOpenPDF p (take 8 d) s)))"
proof (cases "scanned s \<or> isProcessing s \<or> length d \<noteq> 14")
  case True
  then show ?thesis by (auto simp: handleBarCodeScanned_def)
next
  case False
  define s1 where "s1 = s\<lparr>scanned := True, lastScan := Some \<lparr>data = d, timestamp = dateNow p\<rparr>\<rparr>"
  obtain s2 es fs where r: "searchAndOpenPDF p (take 8 d) s1 = (s2, es, fs)"
    by (cases "searchAndOpenPDF p (take 8 d) s1")
  have h: "handleBarCodeScanned p d s = (s2, es @ [SetTimeout 2000] @ fs)"
    using False r by (simp add: handleBarCodeScanned_def substring_0_8 s1_def Let_def)
  have "launched (effectsOf (searchAndOpenPDF p (take 8 d) s1))
      = launched (effectsOf (searchAndOpenPDF p (take 8 d) s))"
    by (simp add: launched_searchAndOpenPDF s1_def)
  then have "launched (es @ fs) = launched (effectsOf (searchAndOpenPDF p (take 8 d) s))"
    using r by (simp add: effectsOf_def)
  then show ?thesis using False h by (simp add: launched_append)
qed

lemma launched_handleBarCodeScanned_saf:
  "launched (snd (handleBarCodeScanned_saf p d t)) =
     (if scanned_saf t \<or> isProcessing_saf t \<or> length d \<noteq> 14 then []
      else launched (effectsOf (searchAndOpenPDF_saf p (take 8 d) t)))"
proof -
  have a: "launched (effectsOf (searchAndOpenPDF_saf p bc t2))
      = launched (effectsOf (searchAndOpenPDF_saf p bc t))"
    if "pdfFiles_saf t2 = pdfFiles_saf t" "directoryPermission t2 = directoryPermission t"
    for bc t2
    using that by (simp add: launched_searchAndOpenPDF_saf directoryGranted_def split: list.splits)
  have b: "launched (snd (saveLastScan p r t1)) = []"
    "pdfFiles_saf (fst (saveLastScan p r t1)) = pdfFiles_saf t1"
    "directoryPermission (fst (saveLastScan p r t1)) = directoryPermission t1" for r t1
    by (simp_all add: saveLastScan_def split: option.splits)
  show ?thesis
  proof (cases "scanned_saf t \<or> isProcessing_saf t \<or> length d \<noteq> 14")
    case True
    then show ?thesis by (auto simp: handleBarCodeScanned_saf_def)
  next
    case False
    define r where "r = \<lparr>data = d, timestamp = dateNow p\<rparr>"
    define t1 where "t1 = t\<lparr>scanned_saf := True, lastScan_saf := Some r\<rparr>"
    obtain t2 es1 where s: "saveLastScan p r t1 = (t2, es1)" by (cases "saveLastScan p r t1")
    obtain t3 es fs where o: "searchAndOpenPDF_saf p (take 8 d) t2 = (t3, es, fs)"
      by (cases "searchAndOpenPDF_saf p (take 8 d) t2")
    have h: "handleBarCodeScanned_saf p d t = (t3, es @ [SetTimeout 2000] @ es1 @ fs)"
      using False s o by (simp add: handleBarCodeScanned_saf_def substring_0_8 r_def t1_def Let_def)
    have "launched es1 = []" using b(1) [of r t1] s by simp
    moreover have "launched (es @ fs) = launched (effectsOf (searchAndOpenPDF_saf p (take 8 d) t))"
      using a [of t2 "take 8 d"] b(2,3) [of r t1] s o by (simp add: t1_def effectsOf_def)
    ultimately show ?thesis using False h by (simp add: launched_append)
  qed
qed

text \<open>
  C5 (as amended). On Android, a scan whose lookup finds a file that still exists (in the
  storage-access-framework variant: whose lookup finds a URI) invokes the intent launcher
  exactly once, with the URI of the matched entry. On every other platform the launcher
  is not invoked at all: the picker-based variant opens the document picker instead, the
  other variant does nothing. In no case does a scan hand the launcher any URI but that
  of the entry its lookup matched.
\<close>

theorem launcher_receives_matched_uri:
  "(\<not> scanned s \<and> \<not> isProcessing s \<and> length d = 14
      \<and> matchingFile p (pdfFiles s) (take 8 d) = Some f \<and> getInfoAsync p (uri f) = Some True
      \<longrightarrow> launched (snd (handleBarCodeScanned p d s))
            = (if platformOS p = Android then [uri f] else []))
   \<and> (\<not> scanned_saf t \<and> \<not> isProcessing_saf t \<and> length d = 14 \<and> directoryGranted t
      \<and> matchingFiles p (pdfFiles_saf t) (take 8 d) = u # rest
      \<longrightarrow> launched (snd (handleBarCodeScanned_saf p d t))
            = (if platformOS p = Android then [u] else []))
   \<and> set (launched (snd (handleBarCodeScanned p d s)))
        \<subseteq> (case matchingFile p (pdfFiles s) (take 8 d) of None \<Rightarrow> {} | Some f' \<Rightarrow> {uri f'})
   \<and> set (launched (snd (handleBarCodeScanned_saf p d t)))
        \<subseteq> (case matchingFiles p (pdfFiles_saf t) (take 8 d) of [] \<Rightarrow> {} | u' # rest' \<Rightarrow> {u'})"
proof -
  have a: "\<not> scanned s \<and> \<not> isProcessing s \<and> length d = 14
      \<and> matchingFile p (pdfFiles s) (take 8 d) = Some f \<and> getInfoAsync p (uri f) = Some True
      \<longrightarrow> launched (snd (handleBarCodeScanned p d s))
            = (if platformOS p = Android then [uri f] else [])"
    by (simp add: launched_handleBarCodeScanned launched_searchAndOpenPDF)
  have b: "\<not> scanned_saf t \<and> \<not> isProcessing_saf t \<and> length d = 14 \<and> directoryGranted t
      \<and> matchingFiles p (pdfFiles_saf t) (take 8 d) = u # rest
      \<longrightarrow> launched (snd (handleBarCodeScanned_saf p d t))
            = (if platformOS p = Android then [u] else [])"
    by (simp add: launched_handleBarCodeScanned_saf launched_searchAndOpenPDF_saf)
  have c: "set (launched (snd (handleBarCodeScanned p d s)))
        \<subseteq> (case matchingFile p (pdfFiles s) (take 8 d) of None \<Rightarrow> {} | Some f' \<Rightarrow> {uri f'})"
    by (auto simp: launched_handleBarCodeScanned launched_searchAndOpenPDF split: option.splits)
  have e: "set (launched (snd (handleBarCodeScanned_saf p d t)))
        \<subseteq> (case matchingFiles p (pdfFiles_saf t) (take 8 d) of [] \<Rightarrow> {} | u' # rest' \<Rightarrow> {u'})"
    by (auto simp: launched_handleBarCodeScanned_saf launched_searchAndOpenPDF_saf
        split: list.splits)
  from a b c e show ?thesis by blast
qed

theorem launcher_receives_matched_uri_witness:
  "\<not> scanned readyApp \<and> \<not> isProcessing readyApp \<and> length payload = 14
   \<and> matchingFile androidPlatform (pdfFiles readyApp) (take 8 payload) = Some file1
   \<and> getInfoAsync androidPlatform (uri file1) = Some True
   \<and> platformOS androidPlatform = Android
   \<and> launched (snd (handleBarCodeScanned androidPlatform payload readyApp)) = [uri file1]
   \<and> \<not> scanned_saf readyApp_saf \<and> \<not> isProcessing_saf readyApp_saf
   \<and> directoryGranted readyApp_saf
   \<and> matchingFiles androidPlatform (pdfFiles_saf readyApp_saf) (take 8 payload)
       = [lit ''content://tree/docs/document/docs%2FAB123456.pdf'']
   \<and> launched (snd (handleBarCodeScanned_saf androidPlatform payload readyApp_saf))
       = [lit ''content://tree/docs/document/docs%2FAB123456.pdf'']"
  using launcher_receives_matched_uri [where s = readyApp and d = payload
      and p = androidPlatform and f = file1 and t = readyApp_saf
      and u = "lit ''content://tree/docs/document/docs%2FAB123456.pdf''" and rest = "[]"]
  by (simp add: payload_def readyApp_def readyApp_saf_def initialApp_def initialApp_saf_def
      androidPlatform_def file1_def lit_def asciiLower_def matchingFile_def
      directoryGranted_def matchingFiles_def
      getStringAfterLastSlash_def lastIndexOf_def substringFrom_def)

text \<open>
  The claim as stated fails where \<open>Platform.OS\<close> is not \<open>android\<close>: the lookup finds
  \<open>file1\<close>, the file exists, and the launcher is not invoked.
\<close>

theorem launcher_not_invoked_on_ios:
  "\<not> scanned readyApp \<and> \<not> isProcessing readyApp \<and> length payload = 14
   \<and> matchingFile iosPlatform (pdfFiles readyApp) (substring payload 0 8) = Some file1
   \<and> getInfoAsync iosPlatform (uri file1) = Some True
   \<and> snd (handleBarCodeScanned iosPlatform payload readyApp)
       = [SetTimeout 2000, OpenDocumentPicker, Alert OpenPDFUseShareButton]
   \<and> launched (snd (handleBarCodeScanned iosPlatform payload readyApp)) = []"
  by (simp add: handleBarCodeScanned_def substring_def iosPlatform_def
      payload_def readyApp_def initialApp_def
      androidPlatform_def file1_def lit_def asciiLower_def
      searchAndOpenPDF_def matchingFile_def openPDFWithIntent_def)

section \<open>Failed scans\<close>

lemma searchAndOpenPDF_frame:
  "pdfFiles (fst (searchAndOpenPDF p bc s)) = pdfFiles s"
  "storage (fst (searchAndOpenPDF p bc s)) = storage s"
  by (simp_all add: searchAndOpenPDF_def split: option.splits)

lemma searchAndOpenPDF_saf_frame:
  "pdfFiles_saf (fst (searchAndOpenPDF_saf p bc t)) = pdfFiles_saf t"
  "directoryPermission (fst (searchAndOpenPDF_saf p bc t)) = directoryPermission t"
  "storage_saf (fst (searchAndOpenPDF_saf p bc t)) = storage_saf t"
  by (simp_all add: searchAndOpenPDF_saf_def split: list.splits prod.splits)

lemma keys_differ: "STORAGE_KEY_saf \<noteq> LAST_SCAN_KEY"
  by (simp add: STORAGE_KEY_saf_def LAST_SCAN_KEY_def lit_def)

lemma saveLastScan_frame:
  "pdfFiles_saf (fst (saveLastScan p r t)) = pdfFiles_saf t"
  "directoryPermission (fst (saveLastScan p r t)) = directoryPermission t"
  "storage_saf (fst (saveLastScan p r t)) STORAGE_KEY_saf = storage_saf t STORAGE_KEY_saf"
  "alerts (snd (saveLastScan p r t)) = []"
  using keys_differ by (simp_all add: saveLastScan_def setItem_def split: option.splits)

lemma handleBarCodeScanned_frame:
  "pdfFiles (fst (handleBarCodeScanned p d s)) = pdfFiles s"
  "storage (fst (handleBarCodeScanned p d s)) = storage s"
proof -
  obtain s2 es fs where r: "searchAndOpenPDF p (substring d 0 8)
      (s\<lparr>scanned := True, lastScan := Some \<lparr>data = d, timestamp = dateNow p\<rparr>\<rparr>) = (s2, es, fs)"
    by (cases "searchAndOpenPDF p (substring d 0 8)
      (s\<lparr>scanned := True, lastScan := Some \<lparr>data = d, timestamp = dateNow p\<rparr>\<rparr>)")
  have "pdfFiles s2 = pdfFiles s" "storage s2 = storage s"
    using searchAndOpenPDF_frame [of p "substring d 0 8"
        "s\<lparr>scanned := True, lastScan := Some \<lparr>data = d, timestamp = dateNow p\<rparr>\<rparr>"] r
    by simp_all
  then show "pdfFiles (fst (handleBarCodeScanned p d s)) = pdfFiles s"
    "storage (fst (handleBarCodeScanned p d s)) = storage s"
    using r by (simp_all add: handleBarCodeScanned_def Let_def)
qed

lemma handleBarCodeScanned_saf_frame:
  "pdfFiles_saf (fst (handleBarCodeScanned_saf p d t)) = pdfFiles_saf t"
  "directoryPermission (fst (handleBarCodeScanned_saf p d t)) = directoryPermission t"
  "storage_saf (fst (handleBarCodeScanned_saf p d t)) STORAGE_KEY_saf = storage_saf t STORAGE_KEY_saf"
proof -
  define r where "r = \<lparr>data = d, timestamp = dateNow p\<rparr>"
  define t1 where "t1 = t\<lparr>scanned_saf := True, lastScan_saf := Some r\<rparr>"
  obtain t2 es1 where s: "saveLastScan p r t1 = (t2, es1)" by (cases "saveLastScan p r t1")
  obtain t3 es fs where o: "searchAndOpenPDF_saf p (substring d 0 8) t2 = (t3, es, fs)"
    by (cases "searchAndOpenPDF_saf p (substring d 0 8) t2")
  have a: "pdfFiles_saf t2 = pdfFiles_saf t" "directoryPermission t2 = directoryPermission t"
    "storage_saf t2 STORAGE_KEY_saf = storage_saf t STORAGE_KEY_saf"
    using saveLastScan_frame(1,2,3) [of p r t1] s by (simp_all add: t1_def)
  have b: "pdfFiles_saf t3 = pdfFiles_saf t2" "directoryPermission t3 = directoryPermission t2"
    "storage_saf t3 = storage_saf t2"
    using searchAndOpenPDF_saf_frame [of p "substring d 0 8" t2] o by simp_all
  show "pdfFiles_saf (fst (handleBarCodeScanned_saf p d t)) = pdfFiles_saf t"
    "directoryPermission (fst (handleBarCodeScanned_saf p d t)) = directoryPermission t"
    "storage_saf (fst (handleBarCodeScanned_saf p d t)) STORAGE_KEY_saf = storage_saf t STORAGE_KEY_saf"
    using a b s o by (simp_all add: handleBarCodeScanned_saf_def Let_def r_def t1_def)
qed

lemma alerts_openPDFWithIntent:
  "launchThrows p u \<Longrightarrow> length (alerts (openPDFWithIntent p u n)) = 1"
  by (auto simp: openPDFWithIntent_def launchThrows_def split: if_splits)

lemma alerts_searchAndOpenPDF:
  "openFails p bc s \<Longrightarrow> length (alerts (effectsOf (searchAndOpenPDF p bc s))) = 1"
  by (auto simp: searchAndOpenPDF_def effectsOf_def openFails_def alerts_openPDFWithIntent
      split: option.splits if_splits)

lemma alerts_searchAndOpenPDF_saf:
  "openFails_saf p bc t \<Longrightarrow> length (alerts (effectsOf (searchAndOpenPDF_saf p bc t))) = 1"
  by (auto simp: searchAndOpenPDF_saf_def effectsOf_def openFails_saf_def
      openPDFWithIntent_saf_def split: list.splits if_splits)

lemma openFails_frame:
  "openFails p bc (s\<lparr>scanned := a, lastScan := l\<rparr>) = openFails p bc s"
  by (simp add: openFails_def)

lemma alerts_handleBarCodeScanned:
  assumes "\<not> scanned s" "\<not> isProcessing s" "length d = 14" "openFails p (take 8 d) s"
  shows "length (alerts (snd (handleBarCodeScanned p d s))) = 1"
proof -
  define s1 where "s1 = s\<lparr>scanned := True, lastScan := Some \<lparr>data = d, timestamp = dateNow p\<rparr>\<rparr>"
  obtain s2 es fs where r: "searchAndOpenPDF p (take 8 d) s1 = (s2, es, fs)"
    by (cases "searchAndOpenPDF p (take 8 d) s1")
  have "openFails p (take 8 d) s1" using assms(4) by (simp add: s1_def openFails_frame)
  then have "length (alerts (es @ fs)) = 1"
    using alerts_searchAndOpenPDF [of p "take 8 d" s1] r by (simp add: effectsOf_def)
  then show ?thesis
    using assms(1,2,3) r
    by (simp add: handleBarCodeScanned_def substring_0_8 s1_def Let_def alerts_append)
qed

lemma alerts_handleBarCodeScanned_saf:
  assumes "\<not> scanned_saf t" "\<not> isProcessing_saf t" "length d = 14" "openFails_saf p (take 8 d) t"
  shows "length (alerts (snd (handleBarCodeScanned_saf p d t))) = 1"
proof -
  define r where "r = \<lparr>data = d, timestamp = dateNow p\<rparr>"
  define t1 where "t1 = t\<lparr>scanned_saf := True, lastScan_saf := Some r\<rparr>"
  obtain t2 es1 where s: "saveLastScan p r t1 = (t2, es1)" by (cases "saveLastScan p r t1")
  obtain t3 es fs where o: "searchAndOpenPDF_saf p (take 8 d) t2 = (t3, es, fs)"
    by (cases "searchAndOpenPDF_saf p (take 8 d) t2")
  have a: "pdfFiles_saf t2 = pdfFiles_saf t" "directoryPermission t2 = directoryPermission t"
    "alerts es1 = []"
    using saveLastScan_frame(1,2,4) [of p r t1] s by (simp_all add: t1_def)
  then have "openFails_saf p (take 8 d) t2"
    using assms(4) by (simp add: openFails_saf_def directoryGranted_def)
  then have "length (alerts (es @ fs)) = 1"
    using alerts_searchAndOpenPDF_saf [of p "take 8 d" t2] o by (simp add: effectsOf_def)
  then show ?thesis
    using assms(1,2,3) s o a(3)
    by (simp add: handleBarCodeScanned_saf_def substring_0_8 r_def t1_def Let_def alerts_append)
qed

text \<open>
  C6. No scan changes the file index or what is persisted of it: after the handler,
  \<open>pdfFiles\<close> is the same list and the AsyncStorage entry of the index is the same (in the
  picker-based variant the whole storage is untouched; in the storage-access-framework
  variant only the last-scan entry is written, the directory entry and the remembered
  directory stay). When the lookup-and-open sequence of the scan fails (no matching
  entry, the matched file no longer exists or cannot be inspected, or the launch throws),
  exactly one alert is shown. The buttons of that alert (remove, add, refresh) start
  operations of their own when the user presses them.
\<close>

theorem failed_scan_only_alerts:
  "pdfFiles (fst (handleBarCodeScanned p d s)) = pdfFiles s
   \<and> storage (fst (handleBarCodeScanned p d s)) = storage s
   \<and> (\<not> scanned s \<and> \<not> isProcessing s \<and> length d = 14 \<and> openFails p (take 8 d) s
        \<longrightarrow> length (alerts (snd (handleBarCodeScanned p d s))) = 1)
   \<and> pdfFiles_saf (fst (handleBarCodeScanned_saf p d t)) = pdfFiles_saf t
   \<and> directoryPermission (fst (handleBarCodeScanned_saf p d t)) = directoryPermission t
   \<and> storage_saf (fst (handleBarCodeScanned_saf p d t)) STORAGE_KEY_saf
       = storage_saf t STORAGE_KEY_saf
   \<and> (\<not> scanned_saf t \<and> \<not> isProcessing_saf t \<and> length d = 14 \<and> openFails_saf p (take 8 d) t
        \<longrightarrow> length (alerts (snd (handleBarCodeScanned_saf p d t))) = 1)"
  using handleBarCodeScanned_frame [of p d s] handleBarCodeScanned_saf_frame [of p d t]
    alerts_handleBarCodeScanned [of s d p] alerts_handleBarCodeScanned_saf [of t d p]
  by blast

theorem failed_scan_only_alerts_witness:
  "\<not> scanned readyApp \<and> \<not> isProcessing readyApp \<and> length unmatchedPayload = 14
   \<and> openFails androidPlatform (take 8 unmatchedPayload) readyApp
   \<and> alerts (snd (handleBarCodeScanned androidPlatform unmatchedPayload readyApp))
       = [NoPDFFoundForBarcode (lit ''zz999999'') 1]
   \<and> pdfFiles (fst (handleBarCodeScanned androidPlatform unmatchedPayload readyApp)) = [file1]
   \<and> \<not> scanned_saf readyApp_saf \<and> \<not> isProcessing_saf readyApp_saf
   \<and> openFails_saf brokenViewerPlatform (take 8 payload) readyApp_saf
   \<and> alerts (snd (handleBarCodeScanned_saf brokenViewerPlatform payload readyApp_saf))
       = [CouldNotOpenPDF]
   \<and> storage_saf (fst (handleBarCodeScanned_saf brokenViewerPlatform payload readyApp_saf))
         STORAGE_KEY_saf = None
   \<and> storage_saf (fst (handleBarCodeScanned_saf brokenViewerPlatform payload readyApp_saf))
         LAST_SCAN_KEY = Some payload"
  using failed_scan_only_alerts [where p = androidPlatform and d = unmatchedPayload
      and s = readyApp and t = readyApp_saf]
    failed_scan_only_alerts [where p = brokenViewerPlatform and d = payload
      and s = readyApp and t = readyApp_saf]
  by (simp add: handleBarCodeScanned_def handleBarCodeScanned_saf_def substring_def
      unmatchedPayload_def payload_def readyApp_def readyApp_saf_def initialApp_def
      initialApp_saf_def androidPlatform_def brokenViewerPlatform_def file1_def lit_def
      asciiLower_def openFails_def openFails_saf_def
      searchAndOpenPDF_def matchingFile_def openPDFWithIntent_def
      saveLastScan_def setItem_def searchAndOpenPDF_saf_def directoryGranted_def matchingFiles_def
      getStringAfterLastSlash_def lastIndexOf_def substringFrom_def openPDFWithIntent_saf_def
      STORAGE_KEY_saf_def LAST_SCAN_KEY_def)

section \<open>File names and the add-file operation\<close>

lemma lower_unit_eq:
  fixes c x :: "16 word"
  shows "(if 0x41 \<le> c \<and> c \<le> 0x5A then c + 0x20 else c) = x \<longleftrightarrow>
     (c = x \<and> \<not> (0x41 \<le> x \<and> x \<le> 0x5A))
     \<or> (c = x - 0x20 \<and> 0x41 \<le> x - 0x20 \<and> x - 0x20 \<le> 0x5A)"
proof (cases "0x41 \<le> c \<and> c \<le> 0x5A")
  case True
  have "c + 0x20 = x \<longleftrightarrow> c = x - 0x20" by (rule eq_diff_eq [symmetric])
  then show ?thesis using True by auto
next
  case False
  then show ?thesis by auto
qed

lemma lower_unit_cases:
  fixes c :: "16 word"
  shows "(if 0x41 \<le> c \<and> c \<le> 0x5A then c + 0x20 else c) = 0x2E \<longleftrightarrow> c = 0x2E"
    and "(if 0x41 \<le> c \<and> c \<le> 0x5A then c + 0x20 else c) = 0x70 \<longleftrightarrow> c = 0x70 \<or> c = 0x50"
    and "(if 0x41 \<le> c \<and> c \<le> 0x5A then c + 0x20 else c) = 0x64 \<longleftrightarrow> c = 0x64 \<or> c = 0x44"
    and "(if 0x41 \<le> c \<and> c \<le> 0x5A then c + 0x20 else c) = 0x66 \<longleftrightarrow> c = 0x66 \<or> c = 0x46"
  unfolding lower_unit_eq by simp_all

lemma length4: "length xs = 4 \<Longrightarrow> \<exists>a b c d. xs = [a, b, c, d]"
  by (auto simp: length_Suc_conv eval_nat_numeral)

lemma last_four:
  assumes "i + 4 = length s"
  shows "drop (length s - 4) s = [s ! i, s ! (i + 1), s ! (i + 2), s ! (i + 3)]"
proof -
  have i: "length s - 4 = i" using assms by simp
  have "length (drop i s) = 4" using assms by simp
  then obtain a b c d where e: "drop i s = [a, b, c, d]" using length4 by blast
  have n: "drop i s ! j = s ! (i + j)" if "j < 4" for j using that assms by simp
  have "a = s ! i" using n [of 0] e by simp
  moreover have "b = s ! (i + 1)" using n [of 1] e by simp
  moreover have "c = s ! (i + 2)" using n [of 2] e by simp
  moreover have "d = s ! (i + 3)" using n [of 3] e by simp
  ultimately show ?thesis using e i by simp
qed

lemma pdfExtMatchesAt_iff:
  "pdfExtMatchesAt s i \<longleftrightarrow> i + 4 = length s \<and> hasPdfExtension s"
proof (cases "i + 4 = length s")
  case True
  then show ?thesis
    by (simp add: pdfExtMatchesAt_def hasPdfExtension_def last_four [OF True] asciiLower_def
        lit_def lower_unit_cases)
next
  case False
  then show ?thesis by (simp add: pdfExtMatchesAt_def)
qed

lemma find_pdf_ext:
  "find (pdfExtMatchesAt s) [0..<Suc (length s)] =
     (if hasPdfExtension s then Some (length s - 4) else None)"
proof (cases "hasPdfExtension s")
  case False
  then show ?thesis by (simp add: find_None_iff pdfExtMatchesAt_iff)
next
  case True
  then have n: "4 \<le> length s" by (simp add: hasPdfExtension_def)
  have "find (pdfExtMatchesAt s) [0..<Suc (length s)] = Some (length s - 4)"
    unfolding find_Some_iff
  proof (intro exI [of _ "length s - 4"] conjI allI impI)
    show "length s - 4 < length [0..<Suc (length s)]" by simp
    show "pdfExtMatchesAt s ([0..<Suc (length s)] ! (length s - 4))"
      using True n by (simp add: pdfExtMatchesAt_iff nth_upt del: upt_Suc)
    show "length s - 4 = [0..<Suc (length s)] ! (length s - 4)"
      by (simp add: nth_upt del: upt_Suc)
    fix j assume "j < length s - 4"
    then show "\<not> pdfExtMatchesAt s ([0..<Suc (length s)] ! j)"
      by (auto simp: pdfExtMatchesAt_iff nth_upt simp del: upt_Suc)
  qed
  then show ?thesis using True by simp
qed

lemma replacePdfExt_stemOf: "replacePdfExt s = stemOf s"
  by (simp add: replacePdfExt_def find_pdf_ext stemOf_def hasPdfExtension_def del: upt_Suc)

lemma testAlnum_iff: "testAlnum s = isAlnumString s"
  by (simp add: testAlnum_def isAlnumString_def list_all_iff)

lemma extractBarcodeFromFilename_stem:
  "extractBarcodeFromFilename f = (if isAlnumString (stemOf f) then Some (stemOf f) else None)"
  by (simp add: extractBarcodeFromFilename_def replacePdfExt_stemOf testAlnum_iff Let_def)

lemma addPDFFiles_loop_eq:
  "addPDFFiles_loop ex as nf dc ic =
     (nf @ map entryOf (filter (\<lambda>a. asset_uri a \<notin> set ex \<and> validName a) as),
      dc + length (filter (\<lambda>a. asset_uri a \<in> set ex) as),
      ic + length (filter (\<lambda>a. asset_uri a \<notin> set ex \<and> \<not> validName a) as))"
proof (induction as arbitrary: nf dc ic)
  case Nil
  then show ?case by simp
next
  case (Cons a as)
  have "isAlnumString b \<Longrightarrow> b \<noteq> []" for b by (simp add: isAlnumString_def)
  then show ?case
    by (simp add: Cons.IH extractBarcodeFromFilename_stem validName_def entryOf_def)
qed

lemma addPDFFiles_pdfFiles:
  "pdfFiles (fst (addPDFFiles p s)) = pdfFiles s @ map entryOf (filter (accepted s) (picked p))"
proof (cases "getDocumentAsync p")
  case PickerRejected
  then show ?thesis by (simp add: addPDFFiles_def picked_def)
next
  case PickerCanceled
  then show ?thesis by (simp add: addPDFFiles_def picked_def)
next
  case (PickerAssets as)
  have acc: "(\<lambda>a. asset_uri a \<notin> uri ` set (pdfFiles s) \<and> validName a) = accepted s"
    by (auto simp: accepted_def)
  show ?thesis
    using PickerAssets
    by (cases "filter (accepted s) as = []")
       (auto simp: addPDFFiles_def picked_def addPDFFiles_loop_eq acc Let_def
          split: option.splits)
qed

lemma addSequence_length:
  "length (pdfFiles s) \<le> length (pdfFiles (addSequence ps s))
   \<and> length (pdfFiles (addSequence ps s))
       \<le> length (pdfFiles s) + sum_list (map (\<lambda>p. length (picked p)) ps)"
proof (induction ps arbitrary: s)
  case Nil
  then show ?case by simp
next
  case (Cons p ps)
  let ?s1 = "fst (addPDFFiles p s)"
  have eq: "length (pdfFiles ?s1) = length (pdfFiles s) + length (filter (accepted s) (picked p))"
    by (simp add: addPDFFiles_pdfFiles)
  have le: "length (filter (accepted s) (picked p)) \<le> length (picked p)" by simp
  show ?case
    unfolding addSequence.simps list.map sum_list.Cons
    using Cons.IH [of ?s1] eq le by linarith
qed

lemma validName_numberedAsset: "validName (numberedAsset k)"
  by (simp add: validName_def numberedAsset_def fileNameOf_def stemOf_def hasPdfExtension_def
      isAlnumString_def isAlnumUnit_def lit_def asciiLower_def)

lemma bulk_add_length: "length (pdfFiles (addSequence [bulkPlatform n] initialApp)) = n"
proof -
  have "filter (accepted initialApp) (map numberedAsset [0..<n]) = map numberedAsset [0..<n]"
    by (simp add: filter_id_conv accepted_def initialApp_def validName_numberedAsset del: upt_Suc)
  then show ?thesis
    by (simp add: addPDFFiles_pdfFiles picked_def bulkPlatform_def pickPlatform_def
        initialApp_def del: upt_Suc)
qed

lemma wellNamed_entryOf: "validName a \<Longrightarrow> wellNamed (entryOf a)"
  by (simp add: wellNamed_def entryOf_def validName_def)

text \<open>
  C9 (as amended). \<open>extractBarcodeFromFilename\<close> returns the file name with one trailing
  \<open>.pdf\<close> extension, matched case-insensitively, removed when there is one, exactly when
  that stem is a non-empty string of ASCII letters and digits, and \<open>null\<close> otherwise. The
  name \<open>addPDFFiles\<close> records for an asset is the asset's name, or \<open>unknown.pdf\<close> when
  the asset's name is empty. Of the picked assets, those whose URI is already in the list
  are counted as duplicates, before their names are looked at; of the others, those whose
  recorded name has a valid shape are appended, in order, each with the stem of its
  recorded name as barcode, and the rest are counted as invalid and not added.
\<close>

theorem barcode_is_stem_of_recorded_name:
  "extractBarcodeFromFilename f = (if isAlnumString (stemOf f) then Some (stemOf f) else None)
   \<and> addPDFFiles_loop (map uri (pdfFiles s)) as [] 0 0 =
       (map entryOf (filter (accepted s) as),
        length (filter (\<lambda>a. asset_uri a \<in> uri ` set (pdfFiles s)) as),
        length (filter (\<lambda>a. asset_uri a \<notin> uri ` set (pdfFiles s) \<and> \<not> validName a) as))
   \<and> pdfFiles (fst (addPDFFiles p s)) = pdfFiles s @ map entryOf (filter (accepted s) (picked p))
   \<and> (\<forall>a\<in>set (filter (accepted s) (picked p)).
         name (entryOf a) = fileNameOf a
         \<and> barcode (entryOf a) = stemOf (name (entryOf a))
         \<and> isAlnumString (barcode (entryOf a)))"
proof -
  have "(\<lambda>a. asset_uri a \<notin> uri ` set (pdfFiles s) \<and> validName a) = accepted s"
    by (auto simp: accepted_def)
  then have "addPDFFiles_loop (map uri (pdfFiles s)) as [] 0 0 =
       (map entryOf (filter (accepted s) as),
        length (filter (\<lambda>a. asset_uri a \<in> uri ` set (pdfFiles s)) as),
        length (filter (\<lambda>a. asset_uri a \<notin> uri ` set (pdfFiles s) \<and> \<not> validName a) as))"
    by (simp add: addPDFFiles_loop_eq)
  moreover have "\<forall>a\<in>set (filter (accepted s) (picked p)).
         name (entryOf a) = fileNameOf a
         \<and> barcode (entryOf a) = stemOf (name (entryOf a))
         \<and> isAlnumString (barcode (entryOf a))"
    by (simp add: accepted_def validName_def entryOf_def)
  ultimately show ?thesis
    using extractBarcodeFromFilename_stem [of f] addPDFFiles_pdfFiles [of p s] by blast
qed

lemma eval_stem: "stemOf (lit ''AB123456.PDF'') = lit ''AB123456''"
  "isAlnumString (lit ''AB123456'')" "stemOf (lit ''my file.pdf'') = lit ''my file''"
  "\<not> isAlnumString (lit ''my file'')"
  by (simp_all add: stemOf_def hasPdfExtension_def isAlnumString_def isAlnumUnit_def lit_def
      asciiLower_def)

theorem barcode_is_stem_of_recorded_name_witness:
  "extractBarcodeFromFilename (lit ''AB123456.PDF'') = Some (lit ''AB123456'')
   \<and> extractBarcodeFromFilename (lit ''my file.pdf'') = None
   \<and> addPDFFiles_loop (map uri (pdfFiles readyApp)) [plainAsset, spacedAsset, renamedAsset] [] 0 0
       = ([\<lparr>name = lit ''12345'', uri = lit ''content://docs/12345'', fsize = 7,
             barcode = lit ''12345''\<rparr>], 1, 1)
   \<and> pdfFiles (fst (addPDFFiles (pickPlatform [plainAsset, spacedAsset, renamedAsset]) readyApp))
       = [file1, \<lparr>name = lit ''12345'', uri = lit ''content://docs/12345'', fsize = 7,
                   barcode = lit ''12345''\<rparr>]
   \<and> plainAsset \<in> set (filter (accepted readyApp)
                          (picked (pickPlatform [plainAsset, spacedAsset, renamedAsset])))"
  using barcode_is_stem_of_recorded_name [where f = "lit ''AB123456.PDF''" and s = readyApp
      and as = "[plainAsset, spacedAsset, renamedAsset]"
      and p = "pickPlatform [plainAsset, spacedAsset, renamedAsset]"]
    barcode_is_stem_of_recorded_name [where f = "lit ''my file.pdf''" and s = readyApp
      and as = "[plainAsset, spacedAsset, renamedAsset]"
      and p = "pickPlatform [plainAsset, spacedAsset, renamedAsset]"]
    eval_stem
  by (simp add: accepted_def validName_def entryOf_def fileNameOf_def sizeOf_def picked_def
      pickPlatform_def androidPlatform_def readyApp_def initialApp_def file1_def
      plainAsset_def spacedAsset_def renamedAsset_def
      stemOf_def hasPdfExtension_def isAlnumString_def isAlnumUnit_def lit_def asciiLower_def)

text \<open>
  The claim as stated fails on two picked assets whose names have another shape: the
  asset with the empty name is added, as \<open>unknown.pdf\<close> with barcode \<open>unknown\<close>, and the
  asset with the name \<open>bad name.pdf\<close>, whose URI is in the list already, is counted as a
  duplicate; none is counted as invalid.
\<close>

theorem nameless_and_duplicate_assets:
  "extractBarcodeFromFilename (asset_name namelessAsset) = None
   \<and> extractBarcodeFromFilename (asset_name renamedAsset) = None
   \<and> pdfFiles (fst (addPDFFiles (pickPlatform [namelessAsset, renamedAsset]) readyApp))
       = [file1, \<lparr>name = lit ''unknown.pdf'', uri = lit ''content://docs/1'', fsize = 0,
                   barcode = lit ''unknown''\<rparr>]
   \<and> snd (addPDFFiles (pickPlatform [namelessAsset, renamedAsset]) readyApp)
       = [Alert (FilesAdded 1 1 0)]"
  by code_simp

section \<open>Names in the file index\<close>

lemma wellNamed_shape:
  assumes "wellNamed f"
  shows "isAlnumString (barcode f)
    \<and> (name f = barcode f
        \<or> (\<exists>ext. name f = barcode f @ ext \<and> length ext = 4 \<and> asciiLower ext = lit ''.pdf''))"
proof (cases "hasPdfExtension (name f)")
  case True
  then have "name f = take (length (name f) - 4) (name f) @ drop (length (name f) - 4) (name f)"
    "length (drop (length (name f) - 4) (name f)) = 4"
    "asciiLower (drop (length (name f) - 4) (name f)) = lit ''.pdf''"
    by (simp_all add: hasPdfExtension_def)
  moreover have "barcode f = take (length (name f) - 4) (name f)"
    using assms True by (simp add: wellNamed_def stemOf_def)
  ultimately show ?thesis using assms by (metis wellNamed_def)
next
  case False
  then show ?thesis using assms by (simp add: wellNamed_def stemOf_def)
qed

text \<open>
  C2 (as amended). In the picker-based variant every entry of the list after
  \<open>addPDFFiles\<close> was in the list before or is well named: its barcode is a non-empty
  string of ASCII letters and digits, and its name is that barcode, alone or followed by
  a four-unit extension that lower-cases to \<open>.pdf\<close>. The extension is not required.
\<close>

theorem added_entries_are_well_named:
  "(\<forall>f\<in>set (pdfFiles (fst (addPDFFiles p s))). f \<in> set (pdfFiles s) \<or> wellNamed f)
   \<and> (wellNamed f \<longrightarrow>
        isAlnumString (barcode f)
        \<and> (name f = barcode f
            \<or> (\<exists>ext. name f = barcode f @ ext \<and> length ext = 4
                  \<and> asciiLower ext = lit ''.pdf'')))"
proof -
  have "\<forall>f\<in>set (pdfFiles (fst (addPDFFiles p s))). f \<in> set (pdfFiles s) \<or> wellNamed f"
    by (auto simp: addPDFFiles_pdfFiles accepted_def wellNamed_entryOf)
  then show ?thesis using wellNamed_shape [of f] by blast
qed

theorem added_entries_are_well_named_witness:
  "pdfFiles (fst (addPDFFiles (pickPlatform [plainAsset, spacedAsset]) readyApp))
     = [file1, entryOf plainAsset]
   \<and> wellNamed (entryOf plainAsset) \<and> wellNamed file1
   \<and> name file1 = barcode file1 @ lit ''.pdf''
   \<and> name (entryOf plainAsset) = barcode (entryOf plainAsset)"
  using added_entries_are_well_named [where p = "pickPlatform [plainAsset, spacedAsset]"
      and s = readyApp and f = file1]
    added_entries_are_well_named [where p = "pickPlatform [plainAsset, spacedAsset]"
      and s = readyApp and f = "entryOf plainAsset"]
    addPDFFiles_pdfFiles [of "pickPlatform [plainAsset, spacedAsset]" readyApp]
  by (simp add: accepted_def validName_def entryOf_def fileNameOf_def sizeOf_def picked_def
      pickPlatform_def androidPlatform_def readyApp_def initialApp_def file1_def
      plainAsset_def spacedAsset_def wellNamed_def
      stemOf_def hasPdfExtension_def isAlnumString_def isAlnumUnit_def lit_def asciiLower_def)

text \<open>
  The claim as stated fails in both variants. A picked document named \<open>12345\<close> is added
  under that name, which does not end in \<open>.pdf\<close>. Re-listing a directory that holds a PDF
  and \<open>notes.txt\<close> puts both URIs into \<open>pdfFiles\<close>: \<open>loadPDFFilesFromDirectory\<close> filters
  the listing into a local list, logs its length (one PDF found), and stores the
  unfiltered listing.
\<close>

theorem index_entry_without_pdf_name:
  "pdfFiles (fst (addPDFFiles (pickPlatform [plainAsset]) initialApp))
     = [\<lparr>name = lit ''12345'', uri = lit ''content://docs/12345'', fsize = 7,
          barcode = lit ''12345''\<rparr>]
   \<and> \<not> endsWith (lit ''12345'') (lit ''.pdf'')
   \<and> loadPDFFilesFromDirectory (listingPlatform [manualUri, notesUri])
         (lit ''content://tree/docs'') initialApp_saf
       = (initialApp_saf\<lparr>pdfFiles_saf := [manualUri, notesUri], isLoading_saf := False\<rparr>,
          [ConsoleLog (FoundPDFFiles 1)])
   \<and> getStringAfterLastSlash notesUri = lit ''notes.txt''
   \<and> \<not> endsWith (toLowerCase (listingPlatform [manualUri, notesUri]) notesUri) (lit ''.pdf'')"
proof -
  have a: "pdfFiles (fst (addPDFFiles (pickPlatform [plainAsset]) initialApp))
     = [\<lparr>name = lit ''12345'', uri = lit ''content://docs/12345'', fsize = 7,
          barcode = lit ''12345''\<rparr>]"
    by code_simp
  have b: "\<not> endsWith (lit ''12345'') (lit ''.pdf'')"
    by code_simp
  have c: "loadPDFFilesFromDirectory (listingPlatform [manualUri, notesUri])
         (lit ''content://tree/docs'') initialApp_saf
       = (initialApp_saf\<lparr>pdfFiles_saf := [manualUri, notesUri], isLoading_saf := False\<rparr>,
          [ConsoleLog (FoundPDFFiles 1)])"
    by (simp add: loadPDFFilesFromDirectory_def listingPlatform_def androidPlatform_def
        manualUri_def notesUri_def endsWith_def asciiLower_def lit_def)
  have d: "getStringAfterLastSlash notesUri = lit ''notes.txt''"
    by code_simp
  have e: "\<not> endsWith (toLowerCase (listingPlatform [manualUri, notesUri]) notesUri) (lit ''.pdf'')"
    by code_simp
  show ?thesis by (intro conjI a b c d e)
qed

section \<open>Size of the file index\<close>

text \<open>
  C7 (as amended). The file index has no fixed bound. An add-file operation appends
  exactly the accepted assets of the pick, so a sequence of such operations never
  shortens the list and lengthens it by at most the number of assets picked; after
  re-listing a directory the list has at most as many entries as the listing.
\<close>

theorem file_index_growth:
  "length (pdfFiles s) \<le> length (pdfFiles (addSequence ps s))
   \<and> length (pdfFiles (addSequence ps s))
       \<le> length (pdfFiles s) + sum_list (map (\<lambda>p. length (picked p)) ps)
   \<and> length (pdfFiles (fst (addPDFFiles p s)))
       = length (pdfFiles s) + length (filter (accepted s) (picked p))
   \<and> (readDirectoryAsync p dir = Some files \<longrightarrow>
        length (pdfFiles_saf (fst (loadPDFFilesFromDirectory p dir t))) \<le> length files)"
  using addSequence_length [of s ps] addPDFFiles_pdfFiles [of p s]
  by (simp add: loadPDFFilesFromDirectory_def)

theorem file_index_growth_witness:
  "length (pdfFiles (addSequence [pickPlatform [plainAsset], pickPlatform [plainAsset, namelessAsset]]
       initialApp)) = 2
   \<and> sum_list (map (\<lambda>p. length (picked p))
         [pickPlatform [plainAsset], pickPlatform [plainAsset, namelessAsset]]) = 3
   \<and> readDirectoryAsync (listingPlatform [manualUri, notesUri]) (lit ''content://tree/docs'')
       = Some [manualUri, notesUri]
   \<and> length (pdfFiles_saf (fst (loadPDFFilesFromDirectory (listingPlatform [manualUri, notesUri])
         (lit ''content://tree/docs'') readyApp_saf))) \<le> 2"
  using file_index_growth [where s = initialApp
      and ps = "[pickPlatform [plainAsset], pickPlatform [plainAsset, namelessAsset]]"
      and p = "listingPlatform [manualUri, notesUri]" and dir = "lit ''content://tree/docs''"
      and files = "[manualUri, notesUri]" and t = readyApp_saf]
  by (simp add: addPDFFiles_pdfFiles accepted_def validName_def entryOf_def fileNameOf_def
      sizeOf_def picked_def pickPlatform_def listingPlatform_def androidPlatform_def
      initialApp_def plainAsset_def namelessAsset_def
      stemOf_def hasPdfExtension_def isAlnumString_def isAlnumUnit_def lit_def asciiLower_def)

text \<open>
  The claim as stated fails: whatever the bound, one add-file operation on the empty
  index with more validly named assets than the bound, all of different URIs, exceeds it.
\<close>

theorem file_index_has_no_bound:
  "\<not> (\<exists>B. \<forall>ps. length (pdfFiles (addSequence ps initialApp)) \<le> B)"
proof
  assume "\<exists>B. \<forall>ps. length (pdfFiles (addSequence ps initialApp)) \<le> B"
  then obtain B where "\<forall>ps. length (pdfFiles (addSequence ps initialApp)) \<le> B" ..
  then have "length (pdfFiles (addSequence [bulkPlatform (Suc B)] initialApp)) \<le> B" by blast
  then show False by (simp only: bulk_add_length)
qed

section \<open>Uniqueness of URIs\<close>

text \<open>\<open>removePDFFile\<close> keeps exactly the entries with another URI, in their order, and
  \<open>addPDFFiles\<close> keeps the URIs of the list pairwise different when those of the pick
  are.\<close>

lemma removePDFFile_pdfFiles:
  "pdfFiles (fst (removePDFFile p u s)) = filter (\<lambda>file. uri file \<noteq> u) (pdfFiles s)"
  by (simp add: removePDFFile_def Let_def split: option.splits)

lemma removePDFFile_keeps_distinct:
  "distinct (map uri (pdfFiles s)) \<Longrightarrow> distinct (map uri (pdfFiles (fst (removePDFFile p u s))))"
  by (simp add: removePDFFile_pdfFiles distinct_map_filter)

lemma addPDFFiles_keeps_distinct:
  assumes "distinct (map uri (pdfFiles s))" and "distinct (map asset_uri (picked p))"
  shows "distinct (map uri (pdfFiles (fst (addPDFFiles p s))))"
proof -
  have u: "uri \<circ> entryOf = asset_uri"
    by (auto simp: entryOf_def)
  have "distinct (map asset_uri (filter (accepted s) (picked p)))"
    using assms(2) by (rule distinct_map_filter)
  moreover have "set (map uri (pdfFiles s)) \<inter> set (map asset_uri (filter (accepted s) (picked p))) = {}"
    by (force simp: accepted_def)
  ultimately show ?thesis
    using assms(1) by (simp add: addPDFFiles_pdfFiles u del: set_map)
qed

text \<open>
  C10. \<open>addPDFFiles\<close> compares each picked asset with the URIs of the list as it was
  before the pick, not with the assets already accepted from the same pick: a pick that
  holds one URI twice puts two entries with that URI into the list, and reports two
  files added and no duplicate.
\<close>

theorem one_pick_adds_the_same_uri_twice:
  "distinct (map uri (pdfFiles initialApp))
   \<and> map uri (pdfFiles (fst (addPDFFiles (pickPlatform [plainAsset, plainAsset]) initialApp)))
       = [lit ''content://docs/12345'', lit ''content://docs/12345'']
   \<and> snd (addPDFFiles (pickPlatform [plainAsset, plainAsset]) initialApp)
       = [Alert (FilesAdded 2 0 0)]"
  by code_simp

end
